theory Spec2Isabelle
  imports Complex_Main
begin

section \<open>Python values\<close>

text \<open>
  The counters kept in the metrics dictionaries are Python numbers: token counts are
  \<open>int\<close>, timings are \<open>float\<close>. A float value is a real number, but the sum of two
  floats is not their sum as reals: it is rounded by the machine. The rounded addition
  of floats is therefore a parameter, \<open>fadd\<close>, of which nothing is assumed, and every
  function that adds counters takes it as its first argument. \<open>py_add fadd\<close> is
  Python's \<open>+\<close> on numbers: exact on two ints, \<open>fadd\<close> when a float is involved, an
  int meeting a float being converted first (the only int that meets a float in the
  adapter is the \<open>0\<close> of \<open>d.get(k, 0)\<close>, which converts exactly).
\<close>

datatype pynum = PInt int | PFloat real

type_synonym float_op = "real \<Rightarrow> real \<Rightarrow> real"

fun py_add :: "float_op \<Rightarrow> pynum \<Rightarrow> pynum \<Rightarrow> pynum" where
  "py_add fadd (PInt a) (PInt b) = PInt (a + b)"
| "py_add fadd (PInt a) (PFloat b) = PFloat (fadd (of_int a) b)"
| "py_add fadd (PFloat a) (PInt b) = PFloat (fadd a (of_int b))"
| "py_add fadd (PFloat a) (PFloat b) = PFloat (fadd a b)"

type_synonym pydict = "string \<rightharpoonup> pynum"

text \<open>\<open>d.get(k, dflt)\<close>\<close>

definition dict_get :: "pydict \<Rightarrow> string \<Rightarrow> pynum \<Rightarrow> pynum" where
  "dict_get d k dflt = (case d k of None \<Rightarrow> dflt | Some v \<Rightarrow> v)"

text \<open>\<open>d[k] = d.get(k, 0) + v\<close>, the statement every lifetime counter is updated with.\<close>

definition dict_add :: "float_op \<Rightarrow> pydict \<Rightarrow> string \<Rightarrow> pynum \<Rightarrow> pydict" where
  "dict_add fadd d k v = d(k \<mapsto> py_add fadd (dict_get d k (PInt 0)) v)"

text \<open>
  Values of type \<open>Any\<close> (request parameters, session fields), with Python's truth
  value: \<open>None\<close>, \<open>False\<close>, zero and every empty container are falsy.
\<close>

datatype pyval =
    VNone
  | VBool bool
  | VInt int
  | VFloat real
  | VStr string
  | VList "pyval list"
  | VDict "(string \<times> pyval) list"

fun truthy :: "pyval \<Rightarrow> bool" where
  "truthy VNone = False"
| "truthy (VBool b) = b"
| "truthy (VInt i) = (i \<noteq> 0)"
| "truthy (VFloat x) = (x \<noteq> 0)"
| "truthy (VStr s) = (s \<noteq> [])"
| "truthy (VList xs) = (xs \<noteq> [])"
| "truthy (VDict kvs) = (kvs \<noteq> [])"

text \<open>\<open>if x is not None: ...\<close> around a block that updates the state.\<close>

definition when_some :: "'a option \<Rightarrow> ('a \<Rightarrow> 's \<Rightarrow> 's) \<Rightarrow> 's \<Rightarrow> 's" where
  "when_some x f s = (case x of None \<Rightarrow> s | Some v \<Rightarrow> f v s)"

section \<open>Data model\<close>

text \<open>
  Modelled from the spec: the declarations of \<open>Message\<close> and \<open>ModelResponse\<close>
  (agno.models.message, agno.models.response), which the adapter imports. Their fields
  are those of the specification's data model that the adapter reads and writes: role,
  optional text content, optional tool calls (id, name, arguments), the id of the tool
  call a tool message answers, and the per-message metrics dictionary.
\<close>

record tool_call =
  tc_id :: string
  tc_name :: string
  tc_arguments :: string

record Message =
  role :: string
  content :: "string option"
  tool_calls :: "tool_call list option"
  tool_call_id :: "string option"
  msg_metrics :: pydict

record ModelResponse =
  mr_content :: "string option"

text \<open>The vendor SDK's objects (groq.types): usage block, completion, stream chunk.\<close>

record CompletionUsage =
  u_prompt_tokens :: "int option"
  u_completion_tokens :: "int option"
  u_total_tokens :: "int option"
  u_completion_time :: "real option"
  u_prompt_time :: "real option"
  u_queue_time :: "real option"
  u_total_time :: "real option"

record ChatCompletionMessage =
  cm_role :: "string option"
  cm_content :: "string option"
  cm_tool_calls :: "tool_call list option"

record ChatCompletion =
  choices :: "ChatCompletionMessage list"
  usage :: "CompletionUsage option"

record ChoiceDeltaToolCall =
  dtc_index :: nat
  dtc_id :: "string option"
  dtc_name :: "string option"
  dtc_arguments :: "string option"

record ChoiceDelta =
  delta_content :: "string option"
  delta_tool_calls :: "ChoiceDeltaToolCall list option"

record ChatCompletionChunk =
  chunk_choices :: "ChoiceDelta list"
  chunk_usage :: "CompletionUsage option"

text \<open>
  The per-call \<open>Metrics\<close> dataclass of groq.py: the four timing fields it declares
  (all \<open>None\<close> by default) on top of the fields of the base dataclass that the adapter
  uses, the five token counters and \<open>time_to_first_token\<close>. The response timer is not
  a field here: each reading of \<open>metrics.response_timer.elapsed\<close> is an input of the
  function that reads it.
\<close>

record Metrics =
  input_tokens :: "int option"
  output_tokens :: "int option"
  total_tokens :: "int option"
  prompt_tokens :: "int option"
  completion_tokens :: "int option"
  time_to_first_token :: "real option"
  completion_time :: "real option"
  prompt_time :: "real option"
  queue_time :: "real option"
  total_time :: "real option"

text \<open>
  The base dataclass (agno.models.base.Metrics) is imported by the adapter, and its
  defaults for the four token counters that the adapter only ever assigns are a
  parameter: every property below holds whatever they are.
\<close>

record base_defaults =
  dflt_input_tokens :: "int option"
  dflt_output_tokens :: "int option"
  dflt_total_tokens :: "int option"
  dflt_prompt_tokens :: "int option"

text \<open>
  \<open>Metrics()\<close>. \<open>completion_tokens\<close> starts at the number 0: the streaming loop
  increments it with \<open>+= 1\<close> and recognises the first chunk by \<open>== 1\<close>.
\<close>

definition Metrics_init :: "base_defaults \<Rightarrow> Metrics" where
  "Metrics_init d =
     \<lparr> input_tokens = dflt_input_tokens d,
       output_tokens = dflt_output_tokens d,
       total_tokens = dflt_total_tokens d,
       prompt_tokens = dflt_prompt_tokens d,
       completion_tokens = Some 0,
       time_to_first_token = None,
       completion_time = None,
       prompt_time = None,
       queue_time = None,
       total_time = None \<rparr>"

record StreamData =
  response_content :: string
  response_tool_calls :: "ChoiceDeltaToolCall list option"

definition StreamData_init :: StreamData where
  "StreamData_init = \<lparr> response_content = [], response_tool_calls = None \<rparr>"

text \<open>
  A client of the vendor SDK (\<open>GroqClient\<close>, \<open>AsyncGroqClient\<close>) is known by the keyword
  arguments it was constructed with.
\<close>

datatype GroqClient = GroqClient "string \<rightharpoonup> pyval"

text \<open>
  The adapter. \<open>model_id\<close> is the field \<open>id\<close>. A field annotated \<open>Optional[T]\<close> for a
  plain type \<open>T\<close> is a \<open>T option\<close>; a field annotated with \<open>Any\<close> or a union is a
  \<open>pyval\<close>, with \<open>VNone\<close> for \<open>None\<close>; a dictionary of parameters is the list of its
  items; \<open>http_client\<close>, an object of the HTTP library or \<open>None\<close>, is a \<open>pyval\<close> that
  stands for it. \<open>tools\<close>, \<open>tool_choice\<close> and the
  lifetime dictionary \<open>self.metrics\<close> come from the base class. The dictionary is kept
  split by the type of its values: \<open>metrics\<close> holds the numeric counters,
  \<open>response_times\<close> and \<open>first_token_times\<close> hold the two list-valued keys
  "response_times" and "time_to_first_token" (\<open>None\<close>: key absent).
\<close>

record Groq =
  model_id :: string
  name :: string
  provider :: string
  frequency_penalty :: "real option"
  logit_bias :: pyval
  logprobs :: "bool option"
  max_tokens :: "int option"
  presence_penalty :: "real option"
  response_format :: "(string \<times> pyval) list option"
  seed :: "int option"
  stop :: pyval
  temperature :: "real option"
  top_logprobs :: "int option"
  top_p :: "real option"
  user :: "string option"
  extra_headers :: pyval
  extra_query :: pyval
  request_params :: "(string \<times> pyval) list option"
  api_key :: "string option"
  base_url :: pyval
  timeout :: "int option"
  max_retries :: "int option"
  default_headers :: pyval
  default_query :: pyval
  http_client :: pyval
  client_params :: "(string \<times> pyval) list option"
  client :: "GroqClient option"
  async_client :: "GroqClient option"
  tools :: "pyval list option"
  tool_choice :: pyval
  metrics :: pydict
  response_times :: "real list option"
  first_token_times :: "real list option"

text \<open>\<open>Groq()\<close>: every field at its declared default.\<close>

definition Groq_init :: Groq where
  "Groq_init =
     \<lparr> model_id = ''llama3-groq-70b-8192-tool-use-preview'',
       name = ''Groq'',
       provider = ''Groq'',
       frequency_penalty = None,
       logit_bias = VNone,
       logprobs = None,
       max_tokens = None,
       presence_penalty = None,
       response_format = None,
       seed = None,
       stop = VNone,
       temperature = None,
       top_logprobs = None,
       top_p = None,
       user = None,
       extra_headers = VNone,
       extra_query = VNone,
       request_params = None,
       api_key = None,
       base_url = VNone,
       timeout = None,
       max_retries = None,
       default_headers = VNone,
       default_query = VNone,
       http_client = VNone,
       client_params = None,
       client = None,
       async_client = None,
       tools = None,
       tool_choice = VNone,
       metrics = Map.empty,
       response_times = None,
       first_token_times = None \<rparr>"

text \<open>\<open>d.setdefault(k, []).append(x)\<close> on a list-valued key.\<close>

definition setdefault_append :: "real list option \<Rightarrow> real \<Rightarrow> real list option" where
  "setdefault_append l x = Some ((case l of None \<Rightarrow> [] | Some xs \<Rightarrow> xs) @ [x])"

section \<open>Usage metrics of a completed call (update_usage_metrics)\<close>

text \<open>
  The three objects a call updates: the adapter (its lifetime dictionary), the
  assistant message (its metrics dictionary) and the per-call \<open>Metrics\<close> object.
\<close>

type_synonym call_state = "Groq \<times> Message \<times> Metrics"

definition adapter_of :: "call_state \<Rightarrow> Groq" where
  "adapter_of s = fst s"

definition message_of :: "call_state \<Rightarrow> Message" where
  "message_of s = fst (snd s)"

definition metrics_of :: "call_state \<Rightarrow> Metrics" where
  "metrics_of s = snd (snd s)"

text \<open>
  The bodies of the seven \<open>is not None\<close> blocks of update_usage_metrics, in the order
  of the source, each named after the value it stores.
\<close>

fun set_prompt_tokens :: "float_op \<Rightarrow> int \<Rightarrow> call_state \<Rightarrow> call_state" where
  "set_prompt_tokens fadd p (self, am, m) =
     (self\<lparr>metrics := dict_add fadd (dict_add fadd (metrics self) ''input_tokens'' (PInt p))
                                ''prompt_tokens'' (PInt p)\<rparr>,
      am\<lparr>msg_metrics := (msg_metrics am)(''input_tokens'' \<mapsto> PInt p, ''prompt_tokens'' \<mapsto> PInt p)\<rparr>,
      m\<lparr>input_tokens := Some p, prompt_tokens := Some p\<rparr>)"

fun set_completion_tokens :: "float_op \<Rightarrow> int \<Rightarrow> call_state \<Rightarrow> call_state" where
  "set_completion_tokens fadd c (self, am, m) =
     (self\<lparr>metrics := dict_add fadd (dict_add fadd (metrics self) ''output_tokens'' (PInt c))
                                ''completion_tokens'' (PInt c)\<rparr>,
      am\<lparr>msg_metrics := (msg_metrics am)(''output_tokens'' \<mapsto> PInt c, ''completion_tokens'' \<mapsto> PInt c)\<rparr>,
      m\<lparr>output_tokens := Some c, completion_tokens := Some c\<rparr>)"

fun set_total_tokens :: "float_op \<Rightarrow> int \<Rightarrow> call_state \<Rightarrow> call_state" where
  "set_total_tokens fadd t (self, am, m) =
     (self\<lparr>metrics := dict_add fadd (metrics self) ''total_tokens'' (PInt t)\<rparr>,
      am\<lparr>msg_metrics := (msg_metrics am)(''total_tokens'' \<mapsto> PInt t)\<rparr>,
      m\<lparr>total_tokens := Some t\<rparr>)"

fun set_completion_time :: "float_op \<Rightarrow> real \<Rightarrow> call_state \<Rightarrow> call_state" where
  "set_completion_time fadd x (self, am, m) =
     (self\<lparr>metrics := dict_add fadd (metrics self) ''completion_time'' (PFloat x)\<rparr>,
      am\<lparr>msg_metrics := (msg_metrics am)(''completion_time'' \<mapsto> PFloat x)\<rparr>,
      m\<lparr>completion_time := Some x\<rparr>)"

fun set_prompt_time :: "float_op \<Rightarrow> real \<Rightarrow> call_state \<Rightarrow> call_state" where
  "set_prompt_time fadd x (self, am, m) =
     (self\<lparr>metrics := dict_add fadd (metrics self) ''prompt_time'' (PFloat x)\<rparr>,
      am\<lparr>msg_metrics := (msg_metrics am)(''prompt_time'' \<mapsto> PFloat x)\<rparr>,
      m\<lparr>prompt_time := Some x\<rparr>)"

fun set_queue_time :: "float_op \<Rightarrow> real \<Rightarrow> call_state \<Rightarrow> call_state" where
  "set_queue_time fadd x (self, am, m) =
     (self\<lparr>metrics := dict_add fadd (metrics self) ''queue_time'' (PFloat x)\<rparr>,
      am\<lparr>msg_metrics := (msg_metrics am)(''queue_time'' \<mapsto> PFloat x)\<rparr>,
      m\<lparr>queue_time := Some x\<rparr>)"

fun set_total_time :: "float_op \<Rightarrow> real \<Rightarrow> call_state \<Rightarrow> call_state" where
  "set_total_time fadd x (self, am, m) =
     (self\<lparr>metrics := dict_add fadd (metrics self) ''total_time'' (PFloat x)\<rparr>,
      am\<lparr>msg_metrics := (msg_metrics am)(''total_time'' \<mapsto> PFloat x)\<rparr>,
      m\<lparr>total_time := Some x\<rparr>)"

text \<open>
  \<open>update_usage_metrics(assistant_message, metrics, response_usage)\<close>; \<open>elapsed\<close> is
  the reading of \<open>metrics.response_timer.elapsed\<close>. The usage block is an object or
  \<open>None\<close>, so \<open>if response_usage:\<close> is the test for \<open>None\<close>.
\<close>

definition update_usage_metrics ::
  "float_op \<Rightarrow> Groq \<Rightarrow> Message \<Rightarrow> Metrics \<Rightarrow> real \<Rightarrow> CompletionUsage option \<Rightarrow> call_state" where
  "update_usage_metrics fadd self assistant_message m elapsed response_usage =
     (let am1 = assistant_message\<lparr>msg_metrics :=
                  (msg_metrics assistant_message)(''time'' \<mapsto> PFloat elapsed)\<rparr>;
          self1 = self\<lparr>response_times := setdefault_append (response_times self) elapsed\<rparr>
      in case response_usage of
           None \<Rightarrow> (self1, am1, m)
         | Some u \<Rightarrow>
             (let s1 = when_some (u_prompt_tokens u) (set_prompt_tokens fadd) (self1, am1, m);
                  s2 = when_some (u_completion_tokens u) (set_completion_tokens fadd) s1;
                  s3 = when_some (u_total_tokens u) (set_total_tokens fadd) s2;
                  s4 = when_some (u_completion_time u) (set_completion_time fadd) s3;
                  s5 = when_some (u_prompt_time u) (set_prompt_time fadd) s4;
                  s6 = when_some (u_queue_time u) (set_queue_time fadd) s5
              in when_some (u_total_time u) (set_total_time fadd) s6))"

text \<open>
  \<open>create_assistant_message(response_message, metrics, response_usage)\<close>. The tool
  calls are copied with \<open>model_dump\<close>, the SDK's own serialisation of its objects,
  taken here as the identity on the three fields of a tool call.
\<close>

definition create_assistant_message ::
  "float_op \<Rightarrow> Groq \<Rightarrow> ChatCompletionMessage \<Rightarrow> Metrics \<Rightarrow> real \<Rightarrow> CompletionUsage option \<Rightarrow> call_state" where
  "create_assistant_message fadd self response_message m elapsed response_usage =
     (let am0 = \<lparr> role = (case cm_role response_message of
                              None \<Rightarrow> ''assistant''
                            | Some r \<Rightarrow> if r = [] then ''assistant'' else r),
                    content = cm_content response_message,
                    tool_calls = None,
                    tool_call_id = None,
                    msg_metrics = Map.empty \<rparr>;
          am1 = (case cm_tool_calls response_message of
                   None \<Rightarrow> am0
                 | Some tcs \<Rightarrow> if length tcs > 0 then am0\<lparr>tool_calls := Some tcs\<rparr> else am0)
      in update_usage_metrics fadd self am1 m elapsed response_usage)"

text \<open>
  What the vendor reports for a counter, by the key the counter has in the metrics
  dictionaries and in \<open>Metrics\<close>: the observation the properties below are stated with.
\<close>

definition reported_value :: "CompletionUsage option \<Rightarrow> string \<Rightarrow> pynum option" where
  "reported_value ru k =
     (case ru of
        None \<Rightarrow> None
      | Some u \<Rightarrow>
          if k = ''input_tokens'' \<or> k = ''prompt_tokens'' then map_option PInt (u_prompt_tokens u)
          else if k = ''output_tokens'' \<or> k = ''completion_tokens''
            then map_option PInt (u_completion_tokens u)
          else if k = ''total_tokens'' then map_option PInt (u_total_tokens u)
          else if k = ''completion_time'' then map_option PFloat (u_completion_time u)
          else if k = ''prompt_time'' then map_option PFloat (u_prompt_time u)
          else if k = ''queue_time'' then map_option PFloat (u_queue_time u)
          else if k = ''total_time'' then map_option PFloat (u_total_time u)
          else None)"

text \<open>The keys of the token counters (ints) and of the timing counters (floats).\<close>

definition token_keys :: "string list" where
  "token_keys =
     [''input_tokens'', ''prompt_tokens'', ''output_tokens'', ''completion_tokens'',
      ''total_tokens'']"

definition time_keys :: "string list" where
  "time_keys = [''completion_time'', ''prompt_time'', ''queue_time'', ''total_time'']"

text \<open>The value a per-call \<open>Metrics\<close> object holds for a counter, by the same keys.\<close>

definition metric_value :: "Metrics \<Rightarrow> string \<Rightarrow> pynum option" where
  "metric_value m k =
     (if k = ''input_tokens'' then map_option PInt (input_tokens m)
      else if k = ''prompt_tokens'' then map_option PInt (prompt_tokens m)
      else if k = ''output_tokens'' then map_option PInt (output_tokens m)
      else if k = ''completion_tokens'' then map_option PInt (completion_tokens m)
      else if k = ''total_tokens'' then map_option PInt (total_tokens m)
      else if k = ''completion_time'' then map_option PFloat (completion_time m)
      else if k = ''prompt_time'' then map_option PFloat (prompt_time m)
      else if k = ''queue_time'' then map_option PFloat (queue_time m)
      else if k = ''total_time'' then map_option PFloat (total_time m)
      else None)"


section \<open>The streaming loop (response_stream, aresponse_stream)\<close>

text \<open>
  What the adapter can raise: the vendor client's own exceptions (a status error with
  its HTTP status code and message, a connection error, the error of a client that
  cannot be constructed), and Python's \<open>IndexError\<close>, \<open>TypeError\<close> and
  \<open>ZeroDivisionError\<close>.
\<close>

datatype exc =
    APIStatusError nat string
  | APIConnectionError string
  | GroqError string
  | IndexError
  | TypeError
  | ZeroDivisionError

text \<open>\<open>add_response_usage_to_metrics\<close>: nine unconditional assignments.\<close>

definition add_response_usage_to_metrics :: "Metrics \<Rightarrow> CompletionUsage \<Rightarrow> Metrics" where
  "add_response_usage_to_metrics m response_usage =
     m\<lparr> input_tokens := u_prompt_tokens response_usage,
        prompt_tokens := u_prompt_tokens response_usage,
        output_tokens := u_completion_tokens response_usage,
        completion_tokens := u_completion_tokens response_usage,
        total_tokens := u_total_tokens response_usage,
        completion_time := u_completion_time response_usage,
        prompt_time := u_prompt_time response_usage,
        queue_time := u_queue_time response_usage,
        total_time := u_total_time response_usage \<rparr>"

text \<open>
  The state of the loop: the accumulator, the per-call metrics, and the responses
  yielded so far, in yield order.
\<close>

record stream_state =
  stream_data :: StreamData
  stream_metrics :: Metrics
  yielded :: "ModelResponse list"

definition stream_state_init :: "base_defaults \<Rightarrow> stream_state" where
  "stream_state_init d =
     \<lparr> stream_data = StreamData_init, stream_metrics = Metrics_init d, yielded = [] \<rparr>"

text \<open>
  The body of \<open>if len(response.choices) > 0:\<close> for the first choice's delta; \<open>t\<close> is
  the reading of the response timer while this chunk is handled. \<open>+= 1\<close> on \<open>None\<close>
  raises \<open>TypeError\<close>.
\<close>

definition on_choice :: "real \<Rightarrow> ChoiceDelta \<Rightarrow> stream_state \<Rightarrow> exc + stream_state" where
  "on_choice t response_delta s =
     (case completion_tokens (stream_metrics s) of
        None \<Rightarrow> Inl TypeError
      | Some n \<Rightarrow>
          (let m1 = (stream_metrics s)\<lparr>completion_tokens := Some (n + 1)\<rparr>;
               m2 = (if n + 1 = 1 then m1\<lparr>time_to_first_token := Some t\<rparr> else m1);
               s1 = s\<lparr>stream_metrics := m2\<rparr>;
               s2 = (case delta_content response_delta of
                       None \<Rightarrow> s1
                     | Some response_content' \<Rightarrow>
                         s1\<lparr>stream_data := (stream_data s1)\<lparr>response_content :=
                               response_content (stream_data s1) @ response_content'\<rparr>,
                            yielded := yielded s1 @ [\<lparr>mr_content = Some response_content'\<rparr>]\<rparr>);
               s3 = (case delta_tool_calls response_delta of
                       None \<Rightarrow> s2
                     | Some tcs \<Rightarrow>
                         s2\<lparr>stream_data := (stream_data s2)\<lparr>response_tool_calls :=
                               Some ((case response_tool_calls (stream_data s2) of
                                        None \<Rightarrow> [] | Some l \<Rightarrow> l) @ tcs)\<rparr>\<rparr>)
           in Inr s3))"

text \<open>\<open>if response.usage is not None: self.add_response_usage_to_metrics(...)\<close>\<close>

definition on_usage :: "CompletionUsage option \<Rightarrow> stream_state \<Rightarrow> stream_state" where
  "on_usage ru s =
     (case ru of
        None \<Rightarrow> s
      | Some u \<Rightarrow> s\<lparr>stream_metrics := add_response_usage_to_metrics (stream_metrics s) u\<rparr>)"

text \<open>
  One iteration of \<open>for response in self.invoke_stream(messages)\<close>. The loop of
  \<open>aresponse_stream\<close> has the same body under \<open>async for\<close>, and so does what follows
  it: the definitions below stand for both methods.
\<close>

definition stream_chunk :: "real \<Rightarrow> ChatCompletionChunk \<Rightarrow> stream_state \<Rightarrow> exc + stream_state" where
  "stream_chunk t response s =
     (case chunk_choices response of
        [] \<Rightarrow> Inr (on_usage (chunk_usage response) s)
      | response_delta # _ \<Rightarrow>
          (case on_choice t response_delta s of
             Inl e \<Rightarrow> Inl e
           | Inr s' \<Rightarrow> Inr (on_usage (chunk_usage response) s')))"

text \<open>
  The loop over a stream that ends; every chunk comes with the timer reading at the
  moment it is handled.
\<close>

fun stream_loop :: "(real \<times> ChatCompletionChunk) list \<Rightarrow> stream_state \<Rightarrow> exc + stream_state" where
  "stream_loop [] s = Inr s"
| "stream_loop ((t, response) # rest) s =
     (case stream_chunk t response s of
        Inl e \<Rightarrow> Inl e
      | Inr s' \<Rightarrow> stream_loop rest s')"

text \<open>One block of update_stream_metrics: the message's entry, then the lifetime one.\<close>

fun add_counter :: "float_op \<Rightarrow> string \<Rightarrow> pynum \<Rightarrow> Groq \<times> Message \<Rightarrow> Groq \<times> Message" where
  "add_counter fadd k v (self, am) =
     (self\<lparr>metrics := dict_add fadd (metrics self) k v\<rparr>,
      am\<lparr>msg_metrics := (msg_metrics am)(k \<mapsto> v)\<rparr>)"

text \<open>
  \<open>update_stream_metrics(assistant_message, metrics)\<close>; \<open>elapsed\<close> is the reading of
  the stopped response timer.
\<close>

definition update_stream_metrics :: "float_op \<Rightarrow> Groq \<Rightarrow> Message \<Rightarrow> Metrics \<Rightarrow> real \<Rightarrow> Groq \<times> Message" where
  "update_stream_metrics fadd self assistant_message m elapsed =
     (let am1 = assistant_message\<lparr>msg_metrics :=
                  (msg_metrics assistant_message)(''time'' \<mapsto> PFloat elapsed)\<rparr>;
          self1 = self\<lparr>response_times := setdefault_append (response_times self) elapsed\<rparr>;
          s0 = (case time_to_first_token m of
                  None \<Rightarrow> (self1, am1)
                | Some t \<Rightarrow>
                    (self1\<lparr>first_token_times := setdefault_append (first_token_times self1) t\<rparr>,
                     am1\<lparr>msg_metrics := (msg_metrics am1)(''time_to_first_token'' \<mapsto> PFloat t)\<rparr>));
          s1 = when_some (input_tokens m) (\<lambda>v. add_counter fadd ''input_tokens'' (PInt v)) s0;
          s2 = when_some (output_tokens m) (\<lambda>v. add_counter fadd ''output_tokens'' (PInt v)) s1;
          s3 = when_some (prompt_tokens m) (\<lambda>v. add_counter fadd ''prompt_tokens'' (PInt v)) s2;
          s4 = when_some (completion_tokens m) (\<lambda>v. add_counter fadd ''completion_tokens'' (PInt v)) s3;
          s5 = when_some (total_tokens m) (\<lambda>v. add_counter fadd ''total_tokens'' (PInt v)) s4;
          s6 = when_some (completion_time m) (\<lambda>v. add_counter fadd ''completion_time'' (PFloat v)) s5;
          s7 = when_some (prompt_time m) (\<lambda>v. add_counter fadd ''prompt_time'' (PFloat v)) s6;
          s8 = when_some (queue_time m) (\<lambda>v. add_counter fadd ''queue_time'' (PFloat v)) s7
      in when_some (total_time m) (\<lambda>v. add_counter fadd ''total_time'' (PFloat v)) s8)"

text \<open>
  The assistant message built after the loop (\<open>Message(role="assistant")\<close>, content
  only when the accumulated text is not empty, tool calls only when the built list is
  not empty). \<open>build\<close> is \<open>build_tool_calls\<close>, which the base class implements.
\<close>

definition stream_assistant_message ::
  "(ChoiceDeltaToolCall list \<Rightarrow> tool_call list) \<Rightarrow> StreamData \<Rightarrow> Message" where
  "stream_assistant_message build sd =
     (let am0 = \<lparr> role = ''assistant'', content = None, tool_calls = None,
                    tool_call_id = None, msg_metrics = Map.empty \<rparr>;
          am1 = (if response_content sd \<noteq> [] then am0\<lparr>content := Some (response_content sd)\<rparr>
                 else am0)
      in case response_tool_calls sd of
           None \<Rightarrow> am1
         | Some l \<Rightarrow>
             (let tcs = build l
              in if length tcs > 0 then am1\<lparr>tool_calls := Some tcs\<rparr> else am1))"

text \<open>
  One model call of \<open>response_stream\<close>, from the creation of \<open>stream_data\<close> and
  \<open>metrics\<close> to \<open>messages.append(assistant_message)\<close>: the responses yielded, the
  adapter and the conversation afterwards. \<open>t_stop\<close> is the reading of the timer once
  stopped. An exception leaves the adapter and the conversation as they were.
\<close>

definition stream_model_call ::
  "float_op \<Rightarrow> base_defaults \<Rightarrow> (ChoiceDeltaToolCall list \<Rightarrow> tool_call list) \<Rightarrow> Groq \<Rightarrow> Message list \<Rightarrow>
   (real \<times> ChatCompletionChunk) list \<Rightarrow> real \<Rightarrow>
   (exc + ModelResponse list \<times> Metrics) \<times> Groq \<times> Message list" where
  "stream_model_call fadd d build self messages chunks t_stop =
     (case stream_loop chunks (stream_state_init d) of
        Inl e \<Rightarrow> (Inl e, self, messages)
      | Inr s \<Rightarrow>
          (let am = stream_assistant_message build (stream_data s);
               (self', am') = update_stream_metrics fadd self am (stream_metrics s) t_stop
           in (Inr (yielded s, stream_metrics s), self', messages @ [am'])))"


section \<open>Observations and example inputs\<close>

text \<open>
  The data-model invariant of \<open>Metrics\<close>: when input, output and total tokens are all
  known, total = input + output.
\<close>

definition tokens_add_up :: "Metrics \<Rightarrow> bool" where
  "tokens_add_up m =
     (case input_tokens m of
        None \<Rightarrow> True
      | Some i \<Rightarrow>
          (case output_tokens m of
             None \<Rightarrow> True
           | Some j \<Rightarrow> (case total_tokens m of None \<Rightarrow> True | Some t \<Rightarrow> t = i + j)))"

text \<open>The text a chunk of the vendor's stream carries: the content of its first choice.\<close>

definition chunk_fragment :: "ChatCompletionChunk \<Rightarrow> string option" where
  "chunk_fragment c = (case chunk_choices c of [] \<Rightarrow> None | d # _ \<Rightarrow> delta_content d)"

text \<open>The vendor's fragments, in emission order, each as the response that carries it.\<close>

definition fragment_responses :: "(real \<times> ChatCompletionChunk) list \<Rightarrow> ModelResponse list" where
  "fragment_responses chunks =
     map (\<lambda>c. \<lparr>mr_content = Some c\<rparr>) (List.map_filter (\<lambda>tc. chunk_fragment (snd tc)) chunks)"

text \<open>The concatenation, in yield order, of the content of the yielded responses.\<close>

definition yielded_text :: "ModelResponse list \<Rightarrow> string" where
  "yielded_text out = concat (map (\<lambda>r. case mr_content r of None \<Rightarrow> [] | Some c \<Rightarrow> c) out)"

definition has_choice :: "real \<times> ChatCompletionChunk \<Rightarrow> bool" where
  "has_choice tc = (chunk_choices (snd tc) \<noteq> [])"

text \<open>The timer reading at the first chunk that has at least one choice.\<close>

definition first_choice_time :: "(real \<times> ChatCompletionChunk) list \<Rightarrow> real option" where
  "first_choice_time chunks = map_option fst (List.find has_choice chunks)"

text \<open>
  The specification's reading of time to first token: the timer reading at the first
  chunk that has content.
\<close>

definition spec_first_content_time :: "(real \<times> ChatCompletionChunk) list \<Rightarrow> real option" where
  "spec_first_content_time chunks =
     map_option fst (List.find (\<lambda>tc. chunk_fragment (snd tc) \<noteq> None) chunks)"

text \<open>
  A completed model call on an adapter: a completion (its message, the timer reading,
  its usage block) or a stream that ended (its timed chunks, the final timer reading).
  \<open>run_call\<close> performs one on the adapter and returns the adapter and the call's
  \<open>Metrics\<close> object; \<open>run_calls\<close> performs a sequence, one after the other.
\<close>

datatype model_call =
    Completion ChatCompletionMessage real "CompletionUsage option"
  | Streamed "(real \<times> ChatCompletionChunk) list" real

fun run_call ::
  "float_op \<Rightarrow> base_defaults \<Rightarrow> (ChoiceDeltaToolCall list \<Rightarrow> tool_call list) \<Rightarrow> Groq \<Rightarrow> model_call \<Rightarrow>
   exc + Groq \<times> Metrics" where
  "run_call fadd d build self (Completion rm elapsed ru) =
     (let s = create_assistant_message fadd self rm (Metrics_init d) elapsed ru
      in Inr (adapter_of s, metrics_of s))"
| "run_call fadd d build self (Streamed chunks t_stop) =
     (case stream_model_call fadd d build self [] chunks t_stop of
        (Inl e, _) \<Rightarrow> Inl e
      | (Inr (out, m), self', _) \<Rightarrow> Inr (self', m))"

fun run_calls ::
  "float_op \<Rightarrow> base_defaults \<Rightarrow> (ChoiceDeltaToolCall list \<Rightarrow> tool_call list) \<Rightarrow> Groq \<Rightarrow> model_call list \<Rightarrow>
   exc + Groq \<times> Metrics list" where
  "run_calls fadd d build self [] = Inr (self, [])"
| "run_calls fadd d build self (c # cs) =
     (case run_call fadd d build self c of
        Inl e \<Rightarrow> Inl e
      | Inr (self1, m) \<Rightarrow>
          (case run_calls fadd d build self1 cs of
             Inl e \<Rightarrow> Inl e
           | Inr (self2, ms) \<Rightarrow> Inr (self2, m # ms)))"

text \<open>
  A call reports a counter: the usage block of a completion gives it a value; the
  \<open>Metrics\<close> object of a stream holds a value for it when the stream has ended.
\<close>

fun call_reports :: "base_defaults \<Rightarrow> model_call \<Rightarrow> string \<Rightarrow> bool" where
  "call_reports d (Completion rm elapsed ru) k = (reported_value ru k \<noteq> None)"
| "call_reports d (Streamed chunks t_stop) k =
     (case stream_loop chunks (stream_state_init d) of
        Inl e \<Rightarrow> False
      | Inr s \<Rightarrow> metric_value (stream_metrics s) k \<noteq> None)"

text \<open>Example inputs.\<close>

definition zero_defaults :: base_defaults where
  "zero_defaults =
     \<lparr> dflt_input_tokens = Some 0, dflt_output_tokens = Some 0,
       dflt_total_tokens = Some 0, dflt_prompt_tokens = Some 0 \<rparr>"

definition token_usage :: "int \<Rightarrow> int \<Rightarrow> int \<Rightarrow> CompletionUsage" where
  "token_usage p c t =
     \<lparr> u_prompt_tokens = Some p, u_completion_tokens = Some c, u_total_tokens = Some t,
       u_completion_time = None, u_prompt_time = None, u_queue_time = None,
       u_total_time = None \<rparr>"

definition text_message :: "string \<Rightarrow> ChatCompletionMessage" where
  "text_message s = \<lparr> cm_role = Some ''assistant'', cm_content = Some s, cm_tool_calls = None \<rparr>"

definition content_chunk :: "string \<Rightarrow> ChatCompletionChunk" where
  "content_chunk s =
     \<lparr> chunk_choices = [\<lparr> delta_content = Some s, delta_tool_calls = None \<rparr>],
       chunk_usage = None \<rparr>"

definition tool_call_chunk :: "ChoiceDeltaToolCall \<Rightarrow> ChatCompletionChunk" where
  "tool_call_chunk tc =
     \<lparr> chunk_choices = [\<lparr> delta_content = None, delta_tool_calls = Some [tc] \<rparr>],
       chunk_usage = None \<rparr>"

definition usage_chunk :: "CompletionUsage \<Rightarrow> ChatCompletionChunk" where
  "usage_chunk u = \<lparr> chunk_choices = [], chunk_usage = Some u \<rparr>"

definition weather_delta :: ChoiceDeltaToolCall where
  "weather_delta =
     \<lparr> dtc_index = 0, dtc_id = Some ''call_1'', dtc_name = Some ''get_weather'',
       dtc_arguments = Some ''{}'' \<rparr>"

text \<open>A stand-in for the base class's \<open>build_tool_calls\<close>: one tool call per fragment.\<close>

definition build_each :: "ChoiceDeltaToolCall list \<Rightarrow> tool_call list" where
  "build_each l =
     map (\<lambda>f. \<lparr> tc_id = (case dtc_id f of None \<Rightarrow> [] | Some x \<Rightarrow> x),
                tc_name = (case dtc_name f of None \<Rightarrow> [] | Some x \<Rightarrow> x),
                tc_arguments = (case dtc_arguments f of None \<Rightarrow> [] | Some x \<Rightarrow> x) \<rparr>) l"

text \<open>
  The stream of the specification's scenario: "Hello", " world", then a chunk without
  choices that carries the usage block.
\<close>

definition hello_stream :: "(real \<times> ChatCompletionChunk) list" where
  "hello_stream =
     [(1, content_chunk ''Hello''), (2, content_chunk '' world''),
      (3, usage_chunk (token_usage 5 2 7))]"

text \<open>A stream whose first chunk carries a tool-call fragment and no content.\<close>

definition tool_then_text_stream :: "(real \<times> ChatCompletionChunk) list" where
  "tool_then_text_stream = [(1, tool_call_chunk weather_delta), (2, content_chunk ''Hi'')]"

text \<open>A stream of two content chunks in which no chunk carries a usage block.\<close>

definition no_usage_stream :: "(real \<times> ChatCompletionChunk) list" where
  "no_usage_stream = [(1, content_chunk ''Hello''), (2, content_chunk '' world'')]"

text \<open>An adapter whose lifetime counter of completion tokens stands at 10.\<close>

definition used_adapter :: Groq where
  "used_adapter = Groq_init\<lparr>metrics := [''completion_tokens'' \<mapsto> PInt 10]\<rparr>"

text \<open>A usage block that reports the three token counts and the total time.\<close>

definition timed_usage :: "int \<Rightarrow> int \<Rightarrow> int \<Rightarrow> real \<Rightarrow> CompletionUsage" where
  "timed_usage p c t x = (token_usage p c t)\<lparr>u_total_time := Some x\<rparr>"

definition timed_stream :: "(real \<times> ChatCompletionChunk) list" where
  "timed_stream =
     [(1, content_chunk ''Hello''), (2, content_chunk '' world''),
      (3, usage_chunk (timed_usage 5 2 7 (1 / 2)))]"

text \<open>
  Two calls, a completion and a stream, whose usage blocks both report 5, 2 and 7
  tokens, and a total time of a quarter and of half a second.
\<close>

definition two_calls :: "model_call list" where
  "two_calls =
     [Completion (text_message ''Hi'') 1 (Some (timed_usage 5 2 7 (1 / 4))),
      Streamed timed_stream 3]"

section \<open>Request parameters (request_kwargs)\<close>

text \<open>An optional field as a Python value.\<close>

definition py_opt :: "('a \<Rightarrow> pyval) \<Rightarrow> 'a option \<Rightarrow> pyval" where
  "py_opt f x = (case x of None \<Rightarrow> VNone | Some v \<Rightarrow> f v)"

text \<open>\<open>if self.x: request_params[k] = self.x\<close>\<close>

definition put_if_truthy :: "string \<Rightarrow> pyval \<Rightarrow> (string \<rightharpoonup> pyval) \<Rightarrow> (string \<rightharpoonup> pyval)" where
  "put_if_truthy k v rp = (if truthy v then rp(k \<mapsto> v) else rp)"

text \<open>\<open>d.update(other)\<close>, item by item.\<close>

fun dict_update :: "(string \<rightharpoonup> pyval) \<Rightarrow> (string \<times> pyval) list \<Rightarrow> (string \<rightharpoonup> pyval)" where
  "dict_update d [] = d"
| "dict_update d ((k, v) # kvs) = dict_update (d(k \<mapsto> v)) kvs"

text \<open>The property \<open>request_kwargs\<close>, statement by statement.\<close>

definition request_kwargs :: "Groq \<Rightarrow> (string \<rightharpoonup> pyval)" where
  "request_kwargs self =
     (let rp = Map.empty;
          rp = put_if_truthy ''frequency_penalty'' (py_opt VFloat (frequency_penalty self)) rp;
          rp = put_if_truthy ''logit_bias'' (logit_bias self) rp;
          rp = put_if_truthy ''logprobs'' (py_opt VBool (logprobs self)) rp;
          rp = put_if_truthy ''max_tokens'' (py_opt VInt (max_tokens self)) rp;
          rp = put_if_truthy ''presence_penalty'' (py_opt VFloat (presence_penalty self)) rp;
          rp = put_if_truthy ''response_format'' (py_opt VDict (response_format self)) rp;
          rp = put_if_truthy ''seed'' (py_opt VInt (seed self)) rp;
          rp = put_if_truthy ''stop'' (stop self) rp;
          rp = put_if_truthy ''temperature'' (py_opt VFloat (temperature self)) rp;
          rp = put_if_truthy ''top_logprobs'' (py_opt VInt (top_logprobs self)) rp;
          rp = put_if_truthy ''top_p'' (py_opt VFloat (top_p self)) rp;
          rp = put_if_truthy ''user'' (py_opt VStr (user self)) rp;
          rp = put_if_truthy ''extra_headers'' (extra_headers self) rp;
          rp = put_if_truthy ''extra_query'' (extra_query self) rp;
          rp = (if truthy (py_opt VList (tools self))
                then (rp(''tools'' \<mapsto> py_opt VList (tools self)))
                       (''tool_choice'' \<mapsto>
                          (if tool_choice self = VNone then VStr ''auto'' else tool_choice self))
                else rp)
      in if truthy (py_opt VDict (request_params self))
         then dict_update rp (case request_params self of None \<Rightarrow> [] | Some kvs \<Rightarrow> kvs)
         else rp)"

text \<open>
  The fourteen request parameters of the adapter, each under the key it has in the
  request, with its value.
\<close>

definition sampling_params :: "Groq \<Rightarrow> (string \<times> pyval) list" where
  "sampling_params self =
     [(''frequency_penalty'', py_opt VFloat (frequency_penalty self)),
      (''logit_bias'', logit_bias self),
      (''logprobs'', py_opt VBool (logprobs self)),
      (''max_tokens'', py_opt VInt (max_tokens self)),
      (''presence_penalty'', py_opt VFloat (presence_penalty self)),
      (''response_format'', py_opt VDict (response_format self)),
      (''seed'', py_opt VInt (seed self)),
      (''stop'', stop self),
      (''temperature'', py_opt VFloat (temperature self)),
      (''top_logprobs'', py_opt VInt (top_logprobs self)),
      (''top_p'', py_opt VFloat (top_p self)),
      (''user'', py_opt VStr (user self)),
      (''extra_headers'', extra_headers self),
      (''extra_query'', extra_query self)]"

text \<open>The keys the \<open>request_params\<close> dictionary of the adapter supplies itself.\<close>

definition overridden :: "Groq \<Rightarrow> string set" where
  "overridden self = fst ` set (case request_params self of None \<Rightarrow> [] | Some kvs \<Rightarrow> kvs)"

section \<open>The non-streaming call and the tool-call loop (response, response_stream)\<close>

text \<open>
  What lies outside the adapter is a parameter of the model: the machine's addition of
  floats, the process environment (\<open>os.getenv\<close>), the vendor SDK (the constructor of
  \<open>GroqClient\<close>, which raises or gives a client, and \<open>chat.completions.create\<close> of a
  client, without and with \<open>stream=True\<close>, each either raising or answering; a stream
  comes with the timer reading at every chunk and the reading once it has ended), the
  reading of the response timer after a non-streaming call, the defaults of the base
  \<open>Metrics\<close>, the base class's \<open>build_tool_calls\<close>, and the execution of a tool.
\<close>

record request =
  rq_model :: string
  rq_messages :: "Message list"
  rq_stream :: bool
  rq_kwargs :: "string \<rightharpoonup> pyval"

record env =
  float_add :: float_op
  getenv :: "string \<Rightarrow> string option"
  new_groq_client :: "(string \<rightharpoonup> pyval) \<Rightarrow> exc + GroqClient"
  vendor_create :: "GroqClient \<Rightarrow> request \<Rightarrow> exc + ChatCompletion"
  vendor_create_stream ::
    "GroqClient \<Rightarrow> request \<Rightarrow> exc + (real \<times> ChatCompletionChunk) list \<times> real"
  timer_elapsed :: "request \<Rightarrow> real"
  metrics_defaults :: base_defaults
  build_tool_calls :: "ChoiceDeltaToolCall list \<Rightarrow> tool_call list"
  run_function_call :: "tool_call \<Rightarrow> string"

text \<open>
  \<open>get_client_params\<close>: it assigns \<open>self.api_key = self.api_key or getenv(...)\<close>, logs
  an error when no key is found (and raises nothing), and returns the keyword arguments
  of the client. The adapter comes back with the key it now holds.
\<close>

definition get_client_params :: "env \<Rightarrow> Groq \<Rightarrow> Groq \<times> (string \<rightharpoonup> pyval)" where
  "get_client_params env self =
     (let self1 = self\<lparr>api_key :=
                    (if truthy (py_opt VStr (api_key self)) then api_key self
                     else getenv env ''GROQ_API_KEY'')\<rparr>;
          cp = Map.empty;
          cp = put_if_truthy ''api_key'' (py_opt VStr (api_key self1)) cp;
          cp = put_if_truthy ''base_url'' (base_url self1) cp;
          cp = put_if_truthy ''timeout'' (py_opt VInt (timeout self1)) cp;
          cp = put_if_truthy ''max_retries'' (py_opt VInt (max_retries self1)) cp;
          cp = put_if_truthy ''default_headers'' (default_headers self1) cp;
          cp = put_if_truthy ''default_query'' (default_query self1) cp;
          cp = (if truthy (py_opt VDict (client_params self1))
                then dict_update cp (case client_params self1 of None \<Rightarrow> [] | Some kvs \<Rightarrow> kvs)
                else cp)
      in (self1, cp))"

text \<open>
  \<open>get_client\<close>: the client the adapter was given, or a new one (a client object is
  always truthy, so \<open>if self.client:\<close> is the test for \<open>None\<close>).
\<close>

definition get_client :: "env \<Rightarrow> Groq \<Rightarrow> Groq \<times> (exc + GroqClient)" where
  "get_client env self =
     (case client self of
        Some c \<Rightarrow> (self, Inr c)
      | None \<Rightarrow>
          (let (self1, cp) = get_client_params env self;
               cp = (if http_client self1 \<noteq> VNone then cp(''http_client'' \<mapsto> http_client self1)
                     else cp)
           in (self1, new_groq_client env cp)))"

text \<open>
  \<open>format_message\<close> returns \<open>message.to_dict()\<close>; the dictionary is represented by the
  message itself (images are not part of this model of \<open>Message\<close>).
\<close>

definition format_message :: "Message \<Rightarrow> Message" where
  "format_message message = message"

definition the_request :: "Groq \<Rightarrow> Message list \<Rightarrow> bool \<Rightarrow> request" where
  "the_request self messages streaming =
     \<lparr> rq_model = model_id self,
       rq_messages = map format_message messages,
       rq_stream = streaming,
       rq_kwargs = request_kwargs self \<rparr>"

text \<open>
  \<open>invoke\<close> and \<open>invoke_stream\<close>: \<open>self.get_client().chat.completions.create(...)\<close>. The
  adapter comes back as \<open>get_client\<close> leaves it, with what the vendor SDK raised or
  answered.
\<close>

definition invoke :: "env \<Rightarrow> Groq \<Rightarrow> Message list \<Rightarrow> Groq \<times> (exc + ChatCompletion)" where
  "invoke env self messages =
     (case get_client env self of
        (self1, Inl e) \<Rightarrow> (self1, Inl e)
      | (self1, Inr c) \<Rightarrow> (self1, vendor_create env c (the_request self1 messages False)))"


text \<open>
  \<open>Metrics.log()\<close>, called after \<open>messages.append\<close>: it formats
  \<open>self.output_tokens / self.response_timer.elapsed\<close>, which raises \<open>TypeError\<close> when
  \<open>output_tokens\<close> is \<open>None\<close> and \<open>ZeroDivisionError\<close> when the timer reads zero;
  \<open>None\<close> is the call that returns.
\<close>

definition Metrics_log :: "Metrics \<Rightarrow> real \<Rightarrow> exc option" where
  "Metrics_log m elapsed =
     (case output_tokens m of
        None \<Rightarrow> Some TypeError
      | Some n \<Rightarrow> if elapsed = 0 then Some ZeroDivisionError else None)"

text \<open>
  The first part of \<open>response\<close>, up to the update of \<open>model_response\<close>: the vendor
  call, the assistant message with its metrics, \<open>messages.append\<close>, the logging of
  the metrics, and the content copied into the response (\<open>get_content_string\<close> of a
  text content is the text). \<open>response.choices[0]\<close> on an empty list raises
  \<open>IndexError\<close>. The outcome comes with the adapter and the conversation as they are
  when the part ends or raises.
\<close>

definition response_call ::
  "env \<Rightarrow> Groq \<Rightarrow> Message list \<Rightarrow> (exc + Message \<times> ModelResponse) \<times> Groq \<times> Message list" where
  "response_call env self messages =
     (case invoke env self messages of
        (self0, Inl e) \<Rightarrow> (Inl e, self0, messages)
      | (self0, Inr response) \<Rightarrow>
          (case choices response of
             [] \<Rightarrow> (Inl IndexError, self0, messages)
           | response_message # _ \<Rightarrow>
               (let elapsed = timer_elapsed env (the_request self0 messages False);
                    s = create_assistant_message (float_add env) self0 response_message
                          (Metrics_init (metrics_defaults env)) elapsed (usage response);
                    assistant_message = message_of s;
                    messages1 = messages @ [assistant_message]
                in case Metrics_log (metrics_of s) elapsed of
                     Some e \<Rightarrow> (Inl e, adapter_of s, messages1)
                   | None \<Rightarrow>
                       (let model_response =
                              (case content assistant_message of
                                 None \<Rightarrow> \<lparr>mr_content = None\<rparr>
                               | Some c \<Rightarrow> \<lparr>mr_content = Some c\<rparr>)
                        in (Inr (assistant_message, model_response), adapter_of s, messages1)))))"


text \<open>
  Modelled from the spec: the tool-call dispatcher of the base class
  (\<open>handle_tool_calls\<close>), which the adapter inherits. Given the tool calls of the
  assistant message it invokes each function, wraps the return value as a tool-role
  Message tagged with the originating call id, and appends it to the conversation;
  without tool calls it returns \<open>None\<close>.
\<close>

definition tool_message :: "env \<Rightarrow> tool_call \<Rightarrow> Message" where
  "tool_message env tc =
     \<lparr> role = ''tool'', content = Some (run_function_call env tc), tool_calls = None,
       tool_call_id = Some (tc_id tc), msg_metrics = Map.empty \<rparr>"

definition handle_tool_calls ::
  "env \<Rightarrow> Message \<Rightarrow> Message list \<Rightarrow> ModelResponse \<Rightarrow> (Message list \<times> ModelResponse) option" where
  "handle_tool_calls env assistant_message messages model_response =
     (case tool_calls assistant_message of
        None \<Rightarrow> None
      | Some tcs \<Rightarrow>
          if length tcs > 0 then Some (messages @ map (tool_message env) tcs, model_response)
          else None)"


text \<open>
  \<open>response\<close>. The first argument bounds the number of model calls: the loop runs as
  long as the vendor keeps asking for tools, and \<open>None\<close> is the call that has not
  returned within the bound. The result comes with the adapter and the conversation as
  the call leaves them.

  Modelled from the spec: \<open>handle_post_tool_call_messages\<close> of the base class is
  the follow-up model call on the enlarged conversation, whose response is returned.
\<close>

fun response ::
  "nat \<Rightarrow> env \<Rightarrow> Groq \<Rightarrow> Message list \<Rightarrow> ((exc + ModelResponse) \<times> Groq \<times> Message list) option" where
  "response 0 env self messages = None"
| "response (Suc n) env self messages =
     (case response_call env self messages of
        (Inl e, self1, messages1) \<Rightarrow> Some (Inl e, self1, messages1)
      | (Inr (assistant_message, model_response), self1, messages1) \<Rightarrow>
          (case handle_tool_calls env assistant_message messages1 model_response of
             None \<Rightarrow> Some (Inr model_response, self1, messages1)
           | Some (messages2, model_response2) \<Rightarrow> response n env self1 messages2))"





text \<open>
  Example inputs: a user message, an environment without API key in which every client
  can be constructed, and a vendor that answers every request with 404.
\<close>

definition user_message :: "string \<Rightarrow> Message" where
  "user_message s =
     \<lparr> role = ''user'', content = Some s, tool_calls = None, tool_call_id = None,
       msg_metrics = Map.empty \<rparr>"

definition not_found_env :: env where
  "not_found_env =
     \<lparr> float_add = (+),
       getenv = (\<lambda>v. if v = ''GROQ_API_KEY'' then Some ''gsk_test'' else None),
       new_groq_client = (\<lambda>cp. Inr (GroqClient cp)),
       vendor_create = (\<lambda>c rq. Inl (APIStatusError 404 ''Not Found'')),
       vendor_create_stream = (\<lambda>c rq. Inl (APIStatusError 404 ''Not Found'')),
       timer_elapsed = (\<lambda>rq. 1),
       metrics_defaults = zero_defaults,
       build_tool_calls = build_each,
       run_function_call = (\<lambda>tc. ''sunny'') \<rparr>"





section \<open>Reading a PDF from a URL (PDFUrlReader.read)\<close>

text \<open>
  What \<open>read\<close> does besides returning: the log lines it writes and the waits it makes,
  in order.
\<close>

datatype log_event =
    LogInfo string
  | LogRetryWarning nat
  | LogFetchError string
  | LogHTTPError nat
  | Sleep nat

datatype read_exc =
    ValueError string
  | RequestError string
  | OtherError string
  | HTTPStatusError nat
  | UnboundLocalError
  | ParseError string

record http_response =
  status_code :: nat
  body :: string

text \<open>
  One call of \<open>httpx.get(url)\<close>: a response, a transient network error
  (\<open>httpx.RequestError\<close>), or any other exception.
\<close>

datatype fetch_result =
    Fetched http_response
  | FetchRequestError string
  | FetchOtherError string

text \<open>
  A document of one page; \<open>doc_id\<close> stands for the string "name_page" by its two parts.
\<close>

record Document =
  doc_name :: string
  doc_id :: "string \<times> nat"
  doc_page :: nat
  doc_content :: string

text \<open>
  The reader with the two members the base class gives it, and what lies outside it:
  the network (the outcome of the call of \<open>httpx.get\<close> made in each attempt) and the
  PDF library (the extracted text of each page of a body, or its failure).
\<close>

record Reader =
  chunk :: bool
  chunk_document :: "Document \<Rightarrow> Document list"

record pdf_env =
  http_get :: "nat \<Rightarrow> fetch_result"
  parse_pdf :: "string \<Rightarrow> string + string list"

definition build_document :: "string \<Rightarrow> nat \<Rightarrow> string \<Rightarrow> Document" where
  "build_document dname page_number page_text =
     \<lparr> doc_name = dname, doc_id = (dname, page_number), doc_page = page_number,
       doc_content = page_text \<rparr>"

definition build_chunked_documents :: "Reader \<Rightarrow> Document list \<Rightarrow> Document list" where
  "build_chunked_documents self documents = concat (map (chunk_document self) documents)"

text \<open>\<open>s.split(sep)\<close> for a separator of one character, and \<open>s.replace(a, b)\<close>.\<close>

fun split_on :: "char \<Rightarrow> string \<Rightarrow> string list" where
  "split_on c [] = [[]]"
| "split_on c (x # xs) =
     (if x = c then [] # split_on c xs
      else (case split_on c xs of [] \<Rightarrow> [[x]] | w # ws \<Rightarrow> (x # w) # ws))"

definition replace_char :: "char \<Rightarrow> char \<Rightarrow> string \<Rightarrow> string" where
  "replace_char a b s = map (\<lambda>x. if x = a then b else x) s"

text \<open>\<open>url.split("/")[-1].split(".")[0].replace("/", "_").replace(" ", "_")\<close>\<close>

definition url_doc_name :: "string \<Rightarrow> string" where
  "url_doc_name url =
     replace_char CHR '' '' CHR ''_''
       (replace_char CHR ''/'' CHR ''_''
          (hd (split_on CHR ''.'' (last (split_on CHR ''/'' url)))))"

text \<open>
  The loop \<open>for attempt in range(3)\<close> over the attempts still to make: \<open>break\<close> with
  the response, \<open>raise\<close> on the last attempt, or warn, sleep \<open>2**attempt\<close> seconds and
  go on. A loop that ends without \<open>break\<close> leaves \<open>response\<close> unbound.
\<close>

fun fetch_attempts ::
  "(nat \<Rightarrow> fetch_result) \<Rightarrow> nat list \<Rightarrow> log_event list \<Rightarrow>
   log_event list \<times> (read_exc + http_response option)" where
  "fetch_attempts get [] evs = (evs, Inr None)"
| "fetch_attempts get (attempt # rest) evs =
     (case get attempt of
        Fetched resp \<Rightarrow> (evs, Inr (Some resp))
      | FetchRequestError e \<Rightarrow>
          if attempt = 2 then (evs @ [LogFetchError e], Inl (RequestError e))
          else fetch_attempts get rest (evs @ [LogRetryWarning (2 ^ attempt), Sleep (2 ^ attempt)])
      | FetchOtherError e \<Rightarrow> (evs, Inl (OtherError e)))"

text \<open>\<open>response.raise_for_status()\<close> raises unless the status is a success (2xx).\<close>

definition is_success :: "http_response \<Rightarrow> bool" where
  "is_success resp = (200 \<le> status_code resp \<and> status_code resp < 300)"

text \<open>\<open>PDFUrlReader.read(url)\<close>: the log and waits, and the documents or the exception.\<close>

definition read :: "Reader \<Rightarrow> pdf_env \<Rightarrow> string \<Rightarrow> log_event list \<times> (read_exc + Document list)" where
  "read self env url =
     (if url = [] then ([], Inl (ValueError ''No url provided''))
      else
        (case fetch_attempts (http_get env) [0, 1, 2] [LogInfo url] of
           (evs, Inl e) \<Rightarrow> (evs, Inl e)
         | (evs, Inr None) \<Rightarrow> (evs, Inl UnboundLocalError)
         | (evs, Inr (Some resp)) \<Rightarrow>
             if \<not> is_success resp
             then (evs @ [LogHTTPError (status_code resp)],
                   Inl (HTTPStatusError (status_code resp)))
             else
               (case parse_pdf env (body resp) of
                  Inl e \<Rightarrow> (evs, Inl (ParseError e))
                | Inr pages \<Rightarrow>
                    (let documents =
                           map (\<lambda>(page_number, page). build_document (url_doc_name url) page_number page)
                             (zip [1..<Suc (length pages)] pages)
                     in if chunk self then (evs, Inr (build_chunked_documents self documents))
                        else (evs, Inr documents)))))"

text \<open>The waits made, in order.\<close>

fun sleeps :: "log_event list \<Rightarrow> nat list" where
  "sleeps [] = []"
| "sleeps (Sleep n # rest) = n # sleeps rest"
| "sleeps (_ # rest) = sleeps rest"

text \<open>Example inputs: a response that carries a PDF of one page, and a network that never answers.\<close>

definition one_page_pdf :: http_response where
  "one_page_pdf = \<lparr> status_code = 200, body = ''%PDF'' \<rparr>"

definition down_env :: pdf_env where
  "down_env =
     \<lparr> http_get = (\<lambda>attempt. FetchRequestError ''timeout''),
       parse_pdf = (\<lambda>b. Inr [''page one'']) \<rparr>"

text \<open>A network that fails three times and would answer a fourth request.\<close>

definition fourth_time_env :: pdf_env where
  "fourth_time_env =
     \<lparr> http_get = (\<lambda>attempt. if attempt < 3 then FetchRequestError ''timeout''
                             else Fetched one_page_pdf),
       parse_pdf = (\<lambda>b. Inr [''page one'']) \<rparr>"

definition plain_reader :: Reader where
  "plain_reader = \<lparr> chunk = False, chunk_document = (\<lambda>d. [d]) \<rparr>"

definition report_url :: string where
  "report_url = ''https://example.com/files/annual report.pdf''"

section \<open>Storing a workflow session (MongoDbWorkflowStorage.upsert)\<close>

text \<open>
  A document is a dictionary; the collection is the list of its documents in natural
  order (the generated \<open>_id\<close> of a document is left out). Of a \<open>WorkflowSession\<close>
  (agno.workflow) the model keeps the two things \<open>upsert\<close> reads of it: its
  \<open>session_id\<close> (a \<open>str\<close>, or a \<open>UUID\<close> given by its text) and the dictionary that
  \<open>to_dict()\<close> returns.
\<close>

type_synonym document = "string \<rightharpoonup> pyval"

datatype session_key = StrId string | UUID string

record WorkflowSession =
  session_id :: session_key
  to_dict :: document

text \<open>
  What \<open>upsert\<close> lets out: \<open>KeyError\<close>, the \<open>TypeError\<close> of \<open>+= 1\<close>, and the
  \<open>OverflowError\<close> of the driver's encoder, none of which is a \<open>PyMongoError\<close>.
\<close>

datatype storage_exc = KeyError string | PlusTypeError | OverflowError

text \<open>
  The driver call that raises \<open>PyMongoError\<close>, if any, or the write that comes back
  unacknowledged.
\<close>

datatype db_fault = NoFault | FindOneRaises | UpdateOneRaises | NotAcknowledged | ReadRaises

text \<open>
  What lies outside \<open>upsert\<close>: the fault of the database, the clock
  (\<open>int(datetime.now(timezone.utc).timestamp())\<close>), \<open>WorkflowSession.from_dict\<close>
  (agno.workflow), which gives a session or \<open>None\<close>, and the machine's addition of
  floats.
\<close>

record mongo =
  mongo_fault :: db_fault
  utc_timestamp :: int
  from_dict :: "document \<Rightarrow> WorkflowSession option"
  py_float_add :: float_op

text \<open>
  The driver encodes an int in at most 8 bytes and raises \<open>OverflowError\<close> on any
  other, wherever it stands in a query or in a document.
\<close>

definition bson_int :: "int \<Rightarrow> bool" where
  "bson_int i = (- (2 ^ 63) \<le> i \<and> i < 2 ^ 63)"

primrec bson_value :: "pyval \<Rightarrow> bool" where
  "bson_value VNone = True"
| "bson_value (VBool b) = True"
| "bson_value (VInt i) = bson_int i"
| "bson_value (VFloat x) = True"
| "bson_value (VStr s) = True"
| "bson_value (VList xs) = list_all id (map bson_value xs)"
| "bson_value (VDict kvs) = list_all snd (map (map_prod id bson_value) kvs)"

definition bson_document :: "document \<Rightarrow> bool" where
  "bson_document d = (\<forall>k v. d k = Some v \<longrightarrow> bson_value v)"

text \<open>
  The query \<open>{"session_id": v}\<close> matches a document whose \<open>session_id\<close> is \<open>v\<close>, or
  is an array that holds \<open>v\<close>; the query for \<open>None\<close> also matches a document without
  the field. (Numbers of different types are not identified here: a session id is a
  string.)
\<close>

definition matches :: "pyval \<Rightarrow> document \<Rightarrow> bool" where
  "matches v d =
     (case d ''session_id'' of
        None \<Rightarrow> v = VNone
      | Some w \<Rightarrow> w = v \<or> (case w of VList xs \<Rightarrow> v \<in> set xs | _ \<Rightarrow> False))"

text \<open>\<open>collection.find_one({"session_id": v})\<close>\<close>

definition find_one :: "pyval \<Rightarrow> document list \<Rightarrow> document option" where
  "find_one v coll = List.find (matches v) coll"

text \<open>
  \<open>collection.update_one({"session_id": v}, {"$set": update_data}, upsert=True)\<close>: the
  first matching document gets the fields of \<open>update_data\<close>; without a match a
  document made of the query and of \<open>update_data\<close> is inserted.
\<close>

fun update_one :: "pyval \<Rightarrow> document \<Rightarrow> document list \<Rightarrow> document list" where
  "update_one v update_data [] = [[''session_id'' \<mapsto> v] ++ update_data]"
| "update_one v update_data (d # ds) =
     (if matches v d then (d ++ update_data) # ds
      else d # update_one v update_data ds)"

text \<open>
  \<open>x += 1\<close> on a value of a dictionary: a number is incremented (a float by the
  machine's addition \<open>fadd\<close>), anything else raises.
\<close>

fun py_incr :: "float_op \<Rightarrow> pyval \<Rightarrow> pyval option" where
  "py_incr fadd (VInt i) = Some (VInt (i + 1))"
| "py_incr fadd (VFloat x) = Some (VFloat (fadd x 1))"
| "py_incr fadd (VBool b) = Some (VInt ((if b then 1 else 0) + 1))"
| "py_incr fadd _ = None"

text \<open>
  \<open>upsert(session)\<close>: what it returns (the session that \<open>from_dict\<close> makes of the
  document read back; \<open>None\<close> after a \<open>PyMongoError\<close> or an unacknowledged write) or
  raises, and the collection afterwards. A query or a document is encoded, which can
  raise, before the database is reached.
\<close>

definition upsert ::
  "mongo \<Rightarrow> document list \<Rightarrow> WorkflowSession \<Rightarrow>
   (storage_exc + WorkflowSession option) \<times> document list" where
  "upsert db coll session =
     (let session_dict = to_dict session;
          timestamp = utc_timestamp db;
          session_dict = (case session_id session of
                            UUID text \<Rightarrow> session_dict(''session_id'' \<mapsto> VStr text)
                          | StrId _ \<Rightarrow> session_dict)
      in case (case session_dict ''_version'' of
                 None \<Rightarrow> Some (VInt 1)
               | Some v \<Rightarrow> py_incr (py_float_add db) v) of
           None \<Rightarrow> (Inl PlusTypeError, coll)
         | Some version \<Rightarrow>
             (let session_dict = session_dict(''_version'' \<mapsto> version);
                  update_data = session_dict(''updated_at'' \<mapsto> VInt timestamp)
              in case session_dict ''session_id'' of
                   None \<Rightarrow> (Inl (KeyError ''session_id''), coll)
                 | Some key \<Rightarrow>
                     if \<not> bson_value key then (Inl OverflowError, coll)
                     else if mongo_fault db = FindOneRaises then (Inr None, coll)
                     else
                       (let update_data =
                              (case find_one key coll of
                                 None \<Rightarrow> update_data(''created_at'' \<mapsto> VInt timestamp)
                               | Some doc \<Rightarrow> update_data)
                        in if \<not> bson_document update_data then (Inl OverflowError, coll)
                           else if mongo_fault db = UpdateOneRaises then (Inr None, coll)
                           else
                             (let coll' = update_one key update_data coll
                              in if mongo_fault db = NotAcknowledged \<or> mongo_fault db = ReadRaises
                                 then (Inr None, coll')
                                 else (Inr (case find_one key coll' of
                                              None \<Rightarrow> None
                                            | Some doc \<Rightarrow> from_dict db doc), coll')))))"

text \<open>The same session stored again and again, each time on what the last time left.\<close>

fun upsert_many :: "mongo \<Rightarrow> document list \<Rightarrow> WorkflowSession \<Rightarrow> nat \<Rightarrow> document list" where
  "upsert_many db coll session 0 = coll"
| "upsert_many db coll session (Suc n) =
     snd (upsert db (upsert_many db coll session n) session)"

text \<open>
  Example inputs: a database without fault at the time 300, whose \<open>from_dict\<close> makes a
  session of every document that has a string for \<open>session_id\<close>; a session without
  \<open>_version\<close>, the same session at version 3 and at the largest 8-byte version; and a
  stored document at version 7.
\<close>

definition healthy_db :: mongo where
  "healthy_db =
     \<lparr> mongo_fault = NoFault,
       utc_timestamp = 300,
       from_dict = (\<lambda>d. case d ''session_id'' of
                           Some (VStr s) \<Rightarrow> Some \<lparr> session_id = StrId s, to_dict = d \<rparr>
                         | _ \<Rightarrow> None),
       py_float_add = (+) \<rparr>"

definition draft_session :: WorkflowSession where
  "draft_session =
     \<lparr> session_id = StrId ''s1'',
       to_dict = [''session_id'' \<mapsto> VStr ''s1'', ''workflow_id'' \<mapsto> VStr ''w'',
                  ''session_data'' \<mapsto> VStr ''draft''] \<rparr>"

definition versioned_session :: "int \<Rightarrow> WorkflowSession" where
  "versioned_session v =
     \<lparr> session_id = StrId ''s1'',
       to_dict = [''session_id'' \<mapsto> VStr ''s1'', ''workflow_id'' \<mapsto> VStr ''w'',
                  ''session_data'' \<mapsto> VStr ''draft'', ''_version'' \<mapsto> VInt v] \<rparr>"

definition stored_v7 :: document where
  "stored_v7 =
     [''session_id'' \<mapsto> VStr ''s1'', ''workflow_id'' \<mapsto> VStr ''w'',
      ''session_data'' \<mapsto> VStr ''final'', ''_version'' \<mapsto> VInt 7, ''created_at'' \<mapsto> VInt 100,
      ''updated_at'' \<mapsto> VInt 200]"


section \<open>Properties of the metrics\<close>

lemma proj_simps [simp]:
  "adapter_of (a, b, c) = a" "message_of (a, b, c) = b" "metrics_of (a, b, c) = c"
  by (simp_all add: adapter_of_def message_of_def metrics_of_def)

lemma counter_keys_cases:
  obtains "k = ''input_tokens''" | "k = ''prompt_tokens''" | "k = ''output_tokens''"
    | "k = ''completion_tokens''" | "k = ''total_tokens''" | "k = ''completion_time''"
    | "k = ''prompt_time''" | "k = ''queue_time''" | "k = ''total_time''"
    | "k \<noteq> ''input_tokens''" "k \<noteq> ''prompt_tokens''" "k \<noteq> ''output_tokens''"
      "k \<noteq> ''completion_tokens''" "k \<noteq> ''total_tokens''" "k \<noteq> ''completion_time''"
      "k \<noteq> ''prompt_time''" "k \<noteq> ''queue_time''" "k \<noteq> ''total_time''"
  by blast

text \<open>A guarded \<open>d[k] = d.get(k, 0) + v\<close>, seen from one key.\<close>

lemma bump_same:
  "when_some x (\<lambda>v d. dict_add fadd d k (g v)) d k =
     (case x of None \<Rightarrow> d k | Some v \<Rightarrow> Some (py_add fadd (dict_get d k (PInt 0)) (g v)))"
  by (simp add: when_some_def dict_add_def split: option.splits)

lemma bump_other:
  "k \<noteq> k' \<Longrightarrow> when_some x (\<lambda>v d. dict_add fadd d k' (g v)) d k = d k"
  by (simp add: when_some_def dict_add_def split: option.splits)

lemma bump_other_get:
  "k \<noteq> k' \<Longrightarrow> dict_get (when_some x (\<lambda>v d. dict_add fadd d k' (g v)) d) k dflt = dict_get d k dflt"
  by (simp add: dict_get_def bump_other)

lemma lifetime_blocks:
  "metrics (adapter_of (when_some x (set_prompt_tokens fadd) s)) =
     when_some x (\<lambda>v d. dict_add fadd d ''prompt_tokens'' (PInt v))
       (when_some x (\<lambda>v d. dict_add fadd d ''input_tokens'' (PInt v)) (metrics (adapter_of s)))"
  "metrics (adapter_of (when_some x (set_completion_tokens fadd) s)) =
     when_some x (\<lambda>v d. dict_add fadd d ''completion_tokens'' (PInt v))
       (when_some x (\<lambda>v d. dict_add fadd d ''output_tokens'' (PInt v)) (metrics (adapter_of s)))"
  "metrics (adapter_of (when_some x (set_total_tokens fadd) s)) =
     when_some x (\<lambda>v d. dict_add fadd d ''total_tokens'' (PInt v)) (metrics (adapter_of s))"
  "metrics (adapter_of (when_some y (set_completion_time fadd) s)) =
     when_some y (\<lambda>v d. dict_add fadd d ''completion_time'' (PFloat v)) (metrics (adapter_of s))"
  "metrics (adapter_of (when_some y (set_prompt_time fadd) s)) =
     when_some y (\<lambda>v d. dict_add fadd d ''prompt_time'' (PFloat v)) (metrics (adapter_of s))"
  "metrics (adapter_of (when_some y (set_queue_time fadd) s)) =
     when_some y (\<lambda>v d. dict_add fadd d ''queue_time'' (PFloat v)) (metrics (adapter_of s))"
  "metrics (adapter_of (when_some y (set_total_time fadd) s)) =
     when_some y (\<lambda>v d. dict_add fadd d ''total_time'' (PFloat v)) (metrics (adapter_of s))"
  by (cases s; cases x; cases y; simp add: when_some_def)+

lemma lifetime_update_usage_metrics:
  "metrics (adapter_of (update_usage_metrics fadd self am m elapsed ru)) k =
     (case reported_value ru k of
        None \<Rightarrow> metrics self k
      | Some v \<Rightarrow> Some (py_add fadd (dict_get (metrics self) k (PInt 0)) v))"
proof (cases ru)
  case None
  then show ?thesis
    by (simp add: update_usage_metrics_def reported_value_def)
next
  case (Some u)
  show ?thesis
    by (cases k rule: counter_keys_cases)
       (simp_all add: Some update_usage_metrics_def Let_def reported_value_def
          lifetime_blocks bump_same bump_other bump_other_get split: option.splits)
qed

text \<open>The per-call \<open>Metrics\<close> object after each block.\<close>

lemma metrics_blocks:
  "metrics_of (when_some x (set_prompt_tokens fadd) s) =
     (metrics_of s)\<lparr>input_tokens := (case x of None \<Rightarrow> input_tokens (metrics_of s) | Some v \<Rightarrow> Some v),
                    prompt_tokens := (case x of None \<Rightarrow> prompt_tokens (metrics_of s) | Some v \<Rightarrow> Some v)\<rparr>"
  "metrics_of (when_some x (set_completion_tokens fadd) s) =
     (metrics_of s)\<lparr>output_tokens := (case x of None \<Rightarrow> output_tokens (metrics_of s) | Some v \<Rightarrow> Some v),
                    completion_tokens := (case x of None \<Rightarrow> completion_tokens (metrics_of s) | Some v \<Rightarrow> Some v)\<rparr>"
  "metrics_of (when_some x (set_total_tokens fadd) s) =
     (metrics_of s)\<lparr>total_tokens := (case x of None \<Rightarrow> total_tokens (metrics_of s) | Some v \<Rightarrow> Some v)\<rparr>"
  "metrics_of (when_some y (set_completion_time fadd) s) =
     (metrics_of s)\<lparr>completion_time := (case y of None \<Rightarrow> completion_time (metrics_of s) | Some v \<Rightarrow> Some v)\<rparr>"
  "metrics_of (when_some y (set_prompt_time fadd) s) =
     (metrics_of s)\<lparr>prompt_time := (case y of None \<Rightarrow> prompt_time (metrics_of s) | Some v \<Rightarrow> Some v)\<rparr>"
  "metrics_of (when_some y (set_queue_time fadd) s) =
     (metrics_of s)\<lparr>queue_time := (case y of None \<Rightarrow> queue_time (metrics_of s) | Some v \<Rightarrow> Some v)\<rparr>"
  "metrics_of (when_some y (set_total_time fadd) s) =
     (metrics_of s)\<lparr>total_time := (case y of None \<Rightarrow> total_time (metrics_of s) | Some v \<Rightarrow> Some v)\<rparr>"
  by (cases s; cases x; cases y; simp add: when_some_def)+

lemma metrics_of_update_usage_metrics:
  "reported_value ru k = Some v \<Longrightarrow>
     metric_value (metrics_of (update_usage_metrics fadd self am m elapsed ru)) k = Some v"
proof (cases ru)
  case None
  assume "reported_value ru k = Some v"
  with None show ?thesis by (simp add: reported_value_def)
next
  case (Some u)
  assume r: "reported_value ru k = Some v"
  show ?thesis
    using r
    by (cases k rule: counter_keys_cases)
       (auto simp: Some update_usage_metrics_def Let_def reported_value_def metric_value_def
          metrics_blocks cong: option.case_cong)
qed

lemma token_fields_update_usage_metrics:
  "input_tokens (metrics_of (update_usage_metrics fadd self am m elapsed (Some u))) =
     (case u_prompt_tokens u of None \<Rightarrow> input_tokens m | Some v \<Rightarrow> Some v)"
  "output_tokens (metrics_of (update_usage_metrics fadd self am m elapsed (Some u))) =
     (case u_completion_tokens u of None \<Rightarrow> output_tokens m | Some v \<Rightarrow> Some v)"
  "total_tokens (metrics_of (update_usage_metrics fadd self am m elapsed (Some u))) =
     (case u_total_tokens u of None \<Rightarrow> total_tokens m | Some v \<Rightarrow> Some v)"
  by (simp_all add: update_usage_metrics_def Let_def metrics_blocks cong: option.case_cong)

text \<open>
  C5 (as amended). After a non-streaming call whose usage block reports prompt,
  completion and total tokens, the per-call Metrics hold exactly the vendor's three
  numbers: input = prompt_tokens, output = completion_tokens, total = total_tokens. So
  total = input + output holds exactly when the vendor's own block satisfies
  total_tokens = prompt_tokens + completion_tokens; the adapter neither computes nor
  checks the sum.
\<close>

theorem usage_tokens_copied:
  assumes "u_prompt_tokens u = Some p"
    and "u_completion_tokens u = Some c"
    and "u_total_tokens u = Some t"
  shows "input_tokens (metrics_of (create_assistant_message fadd self rm (Metrics_init d) elapsed (Some u))) = Some p
       \<and> output_tokens (metrics_of (create_assistant_message fadd self rm (Metrics_init d) elapsed (Some u))) = Some c
       \<and> total_tokens (metrics_of (create_assistant_message fadd self rm (Metrics_init d) elapsed (Some u))) = Some t
       \<and> (tokens_add_up (metrics_of (create_assistant_message fadd self rm (Metrics_init d) elapsed (Some u)))
            \<longleftrightarrow> t = p + c)"
  using assms
  by (simp add: create_assistant_message_def Let_def token_fields_update_usage_metrics
      tokens_add_up_def)

theorem usage_tokens_copied_witness:
  "input_tokens (metrics_of (create_assistant_message (+) Groq_init (text_message ''Hi'')
      (Metrics_init zero_defaults) 1 (Some (token_usage 5 2 7)))) = Some 5
   \<and> output_tokens (metrics_of (create_assistant_message (+) Groq_init (text_message ''Hi'')
      (Metrics_init zero_defaults) 1 (Some (token_usage 5 2 7)))) = Some 2
   \<and> total_tokens (metrics_of (create_assistant_message (+) Groq_init (text_message ''Hi'')
      (Metrics_init zero_defaults) 1 (Some (token_usage 5 2 7)))) = Some 7
   \<and> tokens_add_up (metrics_of (create_assistant_message (+) Groq_init (text_message ''Hi'')
      (Metrics_init zero_defaults) 1 (Some (token_usage 5 2 7))))"
  using usage_tokens_copied [of "token_usage 5 2 7" 5 2 7 "(+)" Groq_init "text_message ''Hi''"
      zero_defaults 1]
  by (simp add: token_usage_def)

text \<open>
  C5, the claim as stated, fails: a usage block that reports 5 prompt, 2 completion and
  8 total tokens leaves per-call Metrics whose total is not input + output.
\<close>

theorem usage_tokens_counterexample:
  "\<not> tokens_add_up (metrics_of (create_assistant_message (+) Groq_init (text_message ''Hi'')
       (Metrics_init zero_defaults) 1 (Some (token_usage 5 2 8))))"
  by (simp add: create_assistant_message_def Let_def token_fields_update_usage_metrics
      tokens_add_up_def token_usage_def)

section \<open>Properties of the streaming loop\<close>

lemma on_usage_keeps:
  "yielded (on_usage ru s) = yielded s"
  "stream_data (on_usage ru s) = stream_data s"
  "time_to_first_token (stream_metrics (on_usage ru s)) = time_to_first_token (stream_metrics s)"
  by (simp_all add: on_usage_def add_response_usage_to_metrics_def split: option.splits)

lemma on_choice_yields:
  assumes "on_choice t d s = Inr s'"
  shows "yielded s' =
           yielded s @ (case delta_content d of None \<Rightarrow> [] | Some c \<Rightarrow> [\<lparr>mr_content = Some c\<rparr>])"
    and "response_content (stream_data s') =
           response_content (stream_data s) @ (case delta_content d of None \<Rightarrow> [] | Some c \<Rightarrow> c)"
  using assms by (auto simp: on_choice_def Let_def split: option.splits)

lemma stream_chunk_yields:
  assumes "stream_chunk t c s = Inr s'"
  shows "yielded s' =
           yielded s @ (case chunk_fragment c of None \<Rightarrow> [] | Some x \<Rightarrow> [\<lparr>mr_content = Some x\<rparr>])"
    and "response_content (stream_data s') =
           response_content (stream_data s) @ (case chunk_fragment c of None \<Rightarrow> [] | Some x \<Rightarrow> x)"
  using assms
  by (auto simp: stream_chunk_def chunk_fragment_def on_usage_keeps
      split: list.splits sum.splits dest: on_choice_yields)

lemma stream_loop_yields:
  "stream_loop chunks s = Inr s' \<Longrightarrow>
     yielded s' = yielded s @ fragment_responses chunks \<and>
     response_content (stream_data s') =
       response_content (stream_data s) @ yielded_text (fragment_responses chunks)"
proof (induction chunks arbitrary: s)
  case Nil
  then show ?case
    by (simp add: fragment_responses_def yielded_text_def List.map_filter_simps)
next
  case (Cons tc chunks)
  obtain t c where tc: "tc = (t, c)" by (cases tc)
  from Cons.prems tc obtain s1
    where s1: "stream_chunk t c s = Inr s1" and rest: "stream_loop chunks s1 = Inr s'"
    by (auto split: sum.splits)
  from Cons.IH [OF rest] stream_chunk_yields [OF s1] tc show ?case
    by (cases "chunk_fragment c")
       (simp_all add: fragment_responses_def yielded_text_def List.map_filter_simps)
qed

lemma stream_block:
  "metrics (fst (when_some x (\<lambda>v. add_counter fadd k (g v)) s)) =
     when_some x (\<lambda>v d. dict_add fadd d k (g v)) (metrics (fst s))"
  by (cases s; cases x; simp add: when_some_def)

lemma when_some_add_counter_message:
  "content (snd (when_some x (\<lambda>v. add_counter fadd k (g v)) s)) = content (snd s)"
  "role (snd (when_some x (\<lambda>v. add_counter fadd k (g v)) s)) = role (snd s)"
  "tool_calls (snd (when_some x (\<lambda>v. add_counter fadd k (g v)) s)) = tool_calls (snd s)"
  by (cases s; simp add: when_some_def split: option.splits)+

lemma update_stream_metrics_message:
  "content (snd (update_stream_metrics fadd self am m el)) = content am"
  "role (snd (update_stream_metrics fadd self am m el)) = role am"
  "tool_calls (snd (update_stream_metrics fadd self am m el)) = tool_calls am"
  by (cases "time_to_first_token m";
      simp add: update_stream_metrics_def Let_def when_some_add_counter_message)+

lemma lifetime_update_stream_metrics:
  "metrics (fst (update_stream_metrics fadd self am m el)) k =
     (case metric_value m k of
        None \<Rightarrow> metrics self k
      | Some v \<Rightarrow> Some (py_add fadd (dict_get (metrics self) k (PInt 0)) v))"
proof -
  have start: "metrics (fst (case time_to_first_token m of
                  None \<Rightarrow> (self\<lparr>response_times := r\<rparr>, a)
                | Some t \<Rightarrow> (self\<lparr>response_times := r, first_token_times := f t\<rparr>, b t))) =
               metrics self"
    for r a f b
    by (cases "time_to_first_token m") simp_all
  show ?thesis
    by (cases k rule: counter_keys_cases)
       (simp_all add: update_stream_metrics_def Let_def metric_value_def stream_block start
          bump_same bump_other bump_other_get split: option.splits)
qed

lemma stream_model_call_result:
  assumes "stream_model_call fadd d build self messages chunks t_stop = (Inr (out, m), self', messages')"
  obtains s where "stream_loop chunks (stream_state_init d) = Inr s"
    and "out = yielded s" and "m = stream_metrics s"
    and "self' = fst (update_stream_metrics fadd self (stream_assistant_message build (stream_data s)) m t_stop)"
    and "messages' = messages @
           [snd (update_stream_metrics fadd self (stream_assistant_message build (stream_data s)) m t_stop)]"
  using assms
  by (auto simp: stream_model_call_def Let_def split: sum.splits prod.splits)

text \<open>
  C1 (as amended). For every streaming model call that runs to completion, the responses
  yielded are exactly the vendor's content fragments, in the vendor's order, and one
  assistant Message is appended to the conversation. Its content is the concatenation
  of the yielded fragments when that concatenation is not empty, and is absent (None)
  when the concatenation is the empty string.
\<close>

theorem stream_content_concatenation:
  assumes "stream_model_call fadd d build self messages chunks t_stop = (Inr (out, m), self', messages')"
  shows "out = fragment_responses chunks
       \<and> messages' \<noteq> [] \<and> butlast messages' = messages
       \<and> role (last messages') = ''assistant''
       \<and> content (last messages') =
           (if yielded_text out = [] then None else Some (yielded_text out))"
proof -
  from assms obtain s where s: "stream_loop chunks (stream_state_init d) = Inr s"
    and out: "out = yielded s"
    and ms: "messages' = messages @
           [snd (update_stream_metrics fadd self (stream_assistant_message build (stream_data s)) m t_stop)]"
    by (rule stream_model_call_result)
  from stream_loop_yields [OF s] have y: "yielded s = fragment_responses chunks"
    and c: "response_content (stream_data s) = yielded_text (fragment_responses chunks)"
    by (simp_all add: stream_state_init_def StreamData_init_def)
  have "content (stream_assistant_message build (stream_data s)) =
          (if response_content (stream_data s) = [] then None
           else Some (response_content (stream_data s)))"
    and "role (stream_assistant_message build (stream_data s)) = ''assistant''"
    by (simp_all add: stream_assistant_message_def Let_def split: option.splits)
  with y c out ms show ?thesis
    by (simp add: update_stream_metrics_message)
qed

lemma hello_stream_loop:
  "\<exists>s. stream_loop hello_stream (stream_state_init zero_defaults) = Inr s"
  by (simp add: hello_stream_def content_chunk_def usage_chunk_def stream_chunk_def
      on_choice_def on_usage_def stream_state_init_def Metrics_init_def Let_def)

theorem stream_content_concatenation_witness:
  "content (last (snd (snd (stream_model_call (+) zero_defaults build_each Groq_init [] hello_stream 3))))
     = Some ''Hello world''
   \<and> fragment_responses hello_stream = [\<lparr>mr_content = Some ''Hello''\<rparr>, \<lparr>mr_content = Some '' world''\<rparr>]"
proof -
  obtain s where s: "stream_loop hello_stream (stream_state_init zero_defaults) = Inr s"
    using hello_stream_loop by blast
  obtain self' am where u: "update_stream_metrics (+) Groq_init
      (stream_assistant_message build_each (stream_data s)) (stream_metrics s) 3 = (self', am)"
    by (cases "update_stream_metrics (+) Groq_init
      (stream_assistant_message build_each (stream_data s)) (stream_metrics s) 3")
  have e: "stream_model_call (+) zero_defaults build_each Groq_init [] hello_stream 3 =
             (Inr (yielded s, stream_metrics s), self', [] @ [am])"
    by (simp add: stream_model_call_def s u)
  have f: "fragment_responses hello_stream =
             [\<lparr>mr_content = Some ''Hello''\<rparr>, \<lparr>mr_content = Some '' world''\<rparr>]"
    by (simp add: fragment_responses_def hello_stream_def content_chunk_def usage_chunk_def
        chunk_fragment_def List.map_filter_simps)
  from stream_content_concatenation [OF e] f show ?thesis
    by (simp add: e yielded_text_def)
qed

text \<open>
  C1, the claim as stated, fails: for a stream whose only chunk carries the empty
  string, one fragment is yielded and the concatenation of the yielded fragments is the
  empty string, but the content of the appended assistant Message is None.
\<close>

theorem stream_content_counterexample:
  "fst (stream_model_call (+) zero_defaults build_each Groq_init [] [(1, content_chunk [])] 2)
     = Inr ([\<lparr>mr_content = Some []\<rparr>],
            (Metrics_init zero_defaults)\<lparr>completion_tokens := Some 1, time_to_first_token := Some 1\<rparr>)
   \<and> map content (snd (snd (stream_model_call (+) zero_defaults build_each Groq_init []
        [(1, content_chunk [])] 2))) = [None]"
proof -
  let ?m = "(Metrics_init zero_defaults)\<lparr>completion_tokens := Some 1, time_to_first_token := Some 1\<rparr>"
  let ?s = "\<lparr> stream_data = StreamData_init, stream_metrics = ?m,
               yielded = [\<lparr>mr_content = Some []\<rparr>] \<rparr>"
  let ?u = "update_stream_metrics (+) Groq_init (stream_assistant_message build_each StreamData_init) ?m 2"
  have l: "stream_loop [(1, content_chunk [])] (stream_state_init zero_defaults) = Inr ?s"
    by (simp add: content_chunk_def stream_chunk_def on_choice_def on_usage_def
        stream_state_init_def Metrics_init_def StreamData_init_def Let_def)
  have e: "stream_model_call (+) zero_defaults build_each Groq_init [] [(1, content_chunk [])] 2 =
             (Inr (yielded ?s, stream_metrics ?s), fst ?u, [snd ?u])"
    unfolding stream_model_call_def l by (simp add: split_beta Let_def)
  have c: "content (snd ?u) = None"
    unfolding update_stream_metrics_message
    by (simp add: stream_assistant_message_def StreamData_init_def)
  show ?thesis
    by (simp add: e c)
qed

lemma stream_loop_append:
  "stream_loop (xs @ ys) s =
     (case stream_loop xs s of Inl e \<Rightarrow> Inl e | Inr s' \<Rightarrow> stream_loop ys s')"
  by (induction xs arbitrary: s) (auto split: sum.splits)

lemma stream_chunk_no_usage:
  assumes "chunk_usage c = None" and "completion_tokens (stream_metrics s) = Some n"
  shows "\<exists>s'. stream_chunk t c s = Inr s' \<and>
           stream_metrics s' =
             (if chunk_choices c = [] then stream_metrics s
              else (stream_metrics s)\<lparr>completion_tokens := Some (n + 1),
                     time_to_first_token :=
                       (if n = 0 then Some t else time_to_first_token (stream_metrics s))\<rparr>)"
  using assms
  by (cases "chunk_choices c")
     (auto simp: stream_chunk_def on_choice_def on_usage_def Let_def split: option.splits)

lemma has_choice_pair:
  "has_choice (t, c) \<longleftrightarrow> chunk_choices c \<noteq> []"
  by (simp add: has_choice_def)

lemma first_choice_time_Nil:
  "first_choice_time [] = None"
  by (simp add: first_choice_time_def)

lemma first_choice_time_Cons:
  "first_choice_time ((t, c) # chunks) =
     (if chunk_choices c \<noteq> [] then Some t else first_choice_time chunks)"
  by (simp add: first_choice_time_def has_choice_def)

lemma stream_loop_no_usage:
  assumes "\<forall>tc\<in>set chunks. chunk_usage (snd tc) = None"
    and "completion_tokens (stream_metrics s) = Some n" and "0 \<le> n"
  shows "\<exists>s'. stream_loop chunks s = Inr s' \<and>
           stream_metrics s' =
             (stream_metrics s)\<lparr>completion_tokens := Some (n + int (length (filter has_choice chunks))),
                time_to_first_token :=
                  (if n = 0
                   then (case first_choice_time chunks of
                           None \<Rightarrow> time_to_first_token (stream_metrics s)
                         | Some t \<Rightarrow> Some t)
                   else time_to_first_token (stream_metrics s))\<rparr>"
  using assms
proof (induction chunks arbitrary: s n)
  case Nil
  then show ?case
    by (simp add: first_choice_time_Nil)
next
  case (Cons tc chunks)
  obtain t c where tc: "tc = (t, c)" by (cases tc)
  from Cons.prems tc have nu: "chunk_usage c = None" by simp
  from Cons.prems have nu': "\<forall>tc\<in>set chunks. chunk_usage (snd tc) = None" by simp
  from stream_chunk_no_usage [OF nu Cons.prems(2), of t] obtain s1
    where s1: "stream_chunk t c s = Inr s1"
      and m1: "stream_metrics s1 =
             (if chunk_choices c = [] then stream_metrics s
              else (stream_metrics s)\<lparr>completion_tokens := Some (n + 1),
                     time_to_first_token :=
                       (if n = 0 then Some t else time_to_first_token (stream_metrics s))\<rparr>)"
    by blast
  show ?case
  proof (cases "chunk_choices c = []")
    case True
    with m1 have ms: "stream_metrics s1 = stream_metrics s" by simp
    with Cons.prems have c1: "completion_tokens (stream_metrics s1) = Some n" by simp
    from Cons.IH [OF nu' c1 Cons.prems(3)] obtain s'
      where l: "stream_loop chunks s1 = Inr s'"
        and m': "stream_metrics s' =
             (stream_metrics s1)\<lparr>completion_tokens := Some (n + int (length (filter has_choice chunks))),
                time_to_first_token :=
                  (if n = 0
                   then (case first_choice_time chunks of
                           None \<Rightarrow> time_to_first_token (stream_metrics s1)
                         | Some t \<Rightarrow> Some t)
                   else time_to_first_token (stream_metrics s1))\<rparr>"
      by blast
    have "stream_loop (tc # chunks) s = Inr s'"
      using s1 l tc by simp
    moreover have "filter has_choice (tc # chunks) = filter has_choice chunks"
      and "first_choice_time (tc # chunks) = first_choice_time chunks"
      using True tc by (simp_all add: has_choice_pair first_choice_time_Cons)
    ultimately show ?thesis
      using m' [unfolded ms] by simp
  next
    case False
    with m1 have ms: "stream_metrics s1 =
        (stream_metrics s)\<lparr>completion_tokens := Some (n + 1),
           time_to_first_token := (if n = 0 then Some t else time_to_first_token (stream_metrics s))\<rparr>"
      by simp
    then have c1: "completion_tokens (stream_metrics s1) = Some (n + 1)" by simp
    from Cons.prems(3) have pos: "0 \<le> n + 1" "n + 1 \<noteq> 0" by simp_all
    from Cons.IH [OF nu' c1 pos(1)] pos(2) obtain s'
      where l: "stream_loop chunks s1 = Inr s'"
        and m': "stream_metrics s' =
             (stream_metrics s1)\<lparr>completion_tokens :=
                 Some (n + 1 + int (length (filter has_choice chunks))),
                time_to_first_token := time_to_first_token (stream_metrics s1)\<rparr>"
      by auto
    have "stream_loop (tc # chunks) s = Inr s'"
      using s1 l tc by simp
    moreover have "length (filter has_choice (tc # chunks)) = Suc (length (filter has_choice chunks))"
      and "first_choice_time (tc # chunks) = Some t"
      using False tc by (simp_all add: has_choice_pair first_choice_time_Cons)
    ultimately show ?thesis
      using m' [unfolded ms] by simp
  qed
qed

lemma first_choice_time_None:
  "first_choice_time chunks = None \<longleftrightarrow> filter has_choice chunks = []"
  by (auto simp: first_choice_time_def find_None_iff filter_empty_conv)

lemma first_choice_time_append:
  "first_choice_time (xs @ ys) =
     (case first_choice_time xs of None \<Rightarrow> first_choice_time ys | Some t \<Rightarrow> Some t)"
  by (induction xs) (auto simp: first_choice_time_Cons first_choice_time_Nil)

lemma stream_loop_usage_last:
  assumes "\<forall>tc\<in>set (butlast chunks). chunk_usage (snd tc) = None"
  shows "\<exists>s. stream_loop chunks (stream_state_init d) = Inr s \<and>
           time_to_first_token (stream_metrics s) = first_choice_time chunks"
proof (cases chunks rule: rev_cases)
  case Nil
  then show ?thesis
    by (simp add: first_choice_time_Nil stream_state_init_def Metrics_init_def)
next
  case (snoc pre tc)
  obtain t c where tc: "tc = (t, c)" by (cases tc)
  from assms snoc have nu: "\<forall>tc\<in>set pre. chunk_usage (snd tc) = None" by simp
  have c0: "completion_tokens (stream_metrics (stream_state_init d)) = Some 0"
    by (simp add: stream_state_init_def Metrics_init_def)
  from stream_loop_no_usage [OF nu c0] obtain s1
    where s1: "stream_loop pre (stream_state_init d) = Inr s1"
      and m1: "stream_metrics s1 =
          (stream_metrics (stream_state_init d))\<lparr>completion_tokens :=
              Some (0 + int (length (filter has_choice pre))),
            time_to_first_token :=
              (case first_choice_time pre of
                 None \<Rightarrow> time_to_first_token (stream_metrics (stream_state_init d))
               | Some t \<Rightarrow> Some t)\<rparr>"
    by auto
  have t1: "time_to_first_token (stream_metrics s1) = first_choice_time pre"
    by (simp add: m1 stream_state_init_def Metrics_init_def split: option.splits)
  have n1: "completion_tokens (stream_metrics s1) = Some (int (length (filter has_choice pre)))"
    by (simp add: m1)
  have z: "int (length (filter has_choice pre)) = 0 \<longleftrightarrow> first_choice_time pre = None"
    by (simp add: first_choice_time_None)
  have "\<exists>s. stream_chunk t c s1 = Inr s \<and>
          time_to_first_token (stream_metrics s) =
            (case first_choice_time pre of
               None \<Rightarrow> if chunk_choices c \<noteq> [] then Some t else None
             | Some t' \<Rightarrow> Some t')"
    using t1 n1 z
    by (cases "chunk_choices c"; cases "first_choice_time pre")
       (auto simp: stream_chunk_def on_choice_def on_usage_keeps Let_def split: option.splits)
  with s1 snoc tc show ?thesis
    by (auto simp: stream_loop_append first_choice_time_append first_choice_time_Cons
        first_choice_time_Nil split: option.splits)
qed

lemma butlast_take_subset:
  "set (butlast (take n xs)) \<subseteq> set (butlast xs)"
proof -
  have "butlast (take n xs @ drop n xs) =
          (if drop n xs = [] then butlast (take n xs) else take n xs @ butlast (drop n xs))"
    by (rule butlast_append)
  then have "butlast xs =
          (if drop n xs = [] then butlast (take n xs) else take n xs @ butlast (drop n xs))"
    by simp
  then show ?thesis
    by (cases "drop n xs = []") (auto dest: in_set_butlastD)
qed

lemma first_choice_time_take:
  "first_choice_time (take n chunks) = Some t \<Longrightarrow> first_choice_time chunks = Some t"
  using first_choice_time_append [of "take n chunks" "drop n chunks"] by simp

lemma usage_chunk_metrics:
  "metric_value (add_response_usage_to_metrics m u) k = reported_value (Some u) k"
  by (cases k rule: counter_keys_cases)
     (simp_all add: metric_value_def reported_value_def add_response_usage_to_metrics_def)

lemma stream_chunk_usage:
  assumes "chunk_usage c = Some u" and "stream_chunk t c s0 = Inr s1"
  shows "metric_value (stream_metrics s1) k = reported_value (Some u) k"
proof -
  from assms obtain s where "s1 = on_usage (Some u) s"
    by (auto simp: stream_chunk_def split: list.splits sum.splits)
  then show ?thesis
    by (simp add: on_usage_def usage_chunk_metrics)
qed

text \<open>
  C7 (as amended). In a streaming call whose usage blocks come on no chunk but the last,
  \<open>time_to_first_token\<close> is the timer reading at the first chunk that has at least one
  choice, whether or not that chunk's delta carries content, and is left unset when no
  chunk has a choice; it has that value after every prefix of the stream that contains
  such a chunk, so once set it is not changed. A chunk with zero choices is skipped: it
  raises nothing, yields nothing, and leaves the accumulated content and tool calls and
  \<open>time_to_first_token\<close> as they were (the whole state when it has no usage block).
  A chunk carrying a usage block has that block folded into the per-call Metrics: every
  counter of the Metrics then has the value the block reports.
\<close>

theorem time_to_first_token_first_choice:
  "((\<forall>tc\<in>set (butlast chunks). chunk_usage (snd tc) = None) \<longrightarrow>
      (\<exists>s sn. stream_loop chunks (stream_state_init d) = Inr s
          \<and> stream_loop (take n chunks) (stream_state_init d) = Inr sn
          \<and> time_to_first_token (stream_metrics s) = first_choice_time chunks
          \<and> time_to_first_token (stream_metrics sn) = first_choice_time (take n chunks)
          \<and> (time_to_first_token (stream_metrics sn) = None
               \<or> time_to_first_token (stream_metrics sn) = time_to_first_token (stream_metrics s))))
   \<and> (chunk_choices c = [] \<longrightarrow>
        (\<exists>s1. stream_chunk t c s0 = Inr s1
           \<and> yielded s1 = yielded s0
           \<and> stream_data s1 = stream_data s0
           \<and> time_to_first_token (stream_metrics s1) = time_to_first_token (stream_metrics s0)
           \<and> (chunk_usage c = None \<longrightarrow> s1 = s0)))
   \<and> (chunk_usage c = Some u \<longrightarrow> stream_chunk t c s0 = Inr s2 \<longrightarrow>
        (\<forall>k. metric_value (stream_metrics s2) k = reported_value (Some u) k))"
proof (intro conjI impI)
  assume a: "\<forall>tc\<in>set (butlast chunks). chunk_usage (snd tc) = None"
  with butlast_take_subset [of n chunks]
  have b: "\<forall>tc\<in>set (butlast (take n chunks)). chunk_usage (snd tc) = None"
    by blast
  from stream_loop_usage_last [OF a, of d] obtain s
    where s: "stream_loop chunks (stream_state_init d) = Inr s"
      "time_to_first_token (stream_metrics s) = first_choice_time chunks"
    by blast
  from stream_loop_usage_last [OF b, of d] obtain sn
    where sn: "stream_loop (take n chunks) (stream_state_init d) = Inr sn"
      "time_to_first_token (stream_metrics sn) = first_choice_time (take n chunks)"
    by blast
  have "time_to_first_token (stream_metrics sn) = None
          \<or> time_to_first_token (stream_metrics sn) = time_to_first_token (stream_metrics s)"
    using s(2) sn(2) first_choice_time_take [of n chunks]
    by (cases "first_choice_time (take n chunks)") simp_all
  with s sn show "\<exists>s sn. stream_loop chunks (stream_state_init d) = Inr s
          \<and> stream_loop (take n chunks) (stream_state_init d) = Inr sn
          \<and> time_to_first_token (stream_metrics s) = first_choice_time chunks
          \<and> time_to_first_token (stream_metrics sn) = first_choice_time (take n chunks)
          \<and> (time_to_first_token (stream_metrics sn) = None
               \<or> time_to_first_token (stream_metrics sn) = time_to_first_token (stream_metrics s))"
    by blast
next
  assume "chunk_choices c = []"
  then show "\<exists>s1. stream_chunk t c s0 = Inr s1
           \<and> yielded s1 = yielded s0
           \<and> stream_data s1 = stream_data s0
           \<and> time_to_first_token (stream_metrics s1) = time_to_first_token (stream_metrics s0)
           \<and> (chunk_usage c = None \<longrightarrow> s1 = s0)"
    by (simp add: stream_chunk_def on_usage_keeps) (simp add: on_usage_def)
next
  assume "chunk_usage c = Some u" and "stream_chunk t c s0 = Inr s2"
  then show "\<forall>k. metric_value (stream_metrics s2) k = reported_value (Some u) k"
    using stream_chunk_usage by blast
qed

theorem time_to_first_token_first_choice_witness:
  "(\<exists>s sn. stream_loop hello_stream (stream_state_init zero_defaults) = Inr s
       \<and> stream_loop (take 1 hello_stream) (stream_state_init zero_defaults) = Inr sn
       \<and> time_to_first_token (stream_metrics s) = Some 1
       \<and> time_to_first_token (stream_metrics sn) = Some 1)
   \<and> (\<exists>s1. stream_chunk 3 (usage_chunk (token_usage 5 2 7)) (stream_state_init zero_defaults) = Inr s1
       \<and> yielded s1 = []
       \<and> metric_value (stream_metrics s1) ''total_tokens'' = Some (PInt 7))"
proof -
  let ?c = "usage_chunk (token_usage 5 2 7)"
  let ?s0 = "stream_state_init zero_defaults"
  let ?s2 = "on_usage (Some (token_usage 5 2 7)) ?s0"
  have h: "\<forall>tc\<in>set (butlast hello_stream). chunk_usage (snd tc) = None"
    by (simp add: hello_stream_def content_chunk_def)
  have f: "first_choice_time hello_stream = Some 1"
    "first_choice_time (take 1 hello_stream) = Some 1"
    by (simp_all add: hello_stream_def content_chunk_def first_choice_time_Cons)
  have c: "chunk_choices ?c = []" "chunk_usage ?c = Some (token_usage 5 2 7)"
    by (simp_all add: usage_chunk_def)
  have r: "stream_chunk 3 ?c ?s0 = Inr ?s2"
    by (simp add: stream_chunk_def usage_chunk_def)
  have v: "reported_value (Some (token_usage 5 2 7)) ''total_tokens'' = Some (PInt 7)"
    by (simp add: reported_value_def token_usage_def)
  have y: "yielded ?s0 = []"
    by (simp add: stream_state_init_def)
  from time_to_first_token_first_choice [where chunks = hello_stream and d = zero_defaults
      and n = 1 and c = ?c and t = 3 and ?s0.0 = ?s0 and u = "token_usage 5 2 7" and ?s2.0 = ?s2]
    h f c r v y
  show ?thesis
    by auto
qed

text \<open>
  C7, the claim as stated, fails: when the first chunk carries a tool-call fragment and
  no content and the second chunk carries the first content, \<open>time_to_first_token\<close> is
  the reading at the first chunk (1), not the reading at the first chunk that has
  content (2).
\<close>

theorem time_to_first_token_counterexample:
  "stream_loop tool_then_text_stream (stream_state_init zero_defaults) =
     Inr \<lparr> stream_data = \<lparr> response_content = ''Hi'', response_tool_calls = Some [weather_delta] \<rparr>,
           stream_metrics = (Metrics_init zero_defaults)\<lparr>completion_tokens := Some 2,
                               time_to_first_token := Some 1\<rparr>,
           yielded = [\<lparr>mr_content = Some ''Hi''\<rparr>] \<rparr>
   \<and> spec_first_content_time tool_then_text_stream = Some 2"
  by (simp add: tool_then_text_stream_def tool_call_chunk_def content_chunk_def
      stream_chunk_def on_choice_def on_usage_def stream_state_init_def Metrics_init_def
      StreamData_init_def Let_def spec_first_content_time_def chunk_fragment_def)

section \<open>Lifetime metrics\<close>

lemma lifetime_create_assistant_message:
  "metrics (adapter_of (create_assistant_message fadd self rm m elapsed ru)) k =
     (case reported_value ru k of
        None \<Rightarrow> metrics self k
      | Some v \<Rightarrow> Some (py_add fadd (dict_get (metrics self) k (PInt 0)) v))"
  by (simp add: create_assistant_message_def Let_def lifetime_update_usage_metrics)

lemma metrics_of_create_assistant_message:
  "reported_value ru k = Some v \<Longrightarrow>
     metric_value (metrics_of (create_assistant_message fadd self rm m elapsed ru)) k = Some v"
  by (simp add: create_assistant_message_def Let_def metrics_of_update_usage_metrics)

lemma stream_loop_no_usage_times:
  assumes "\<forall>tc\<in>set chunks. chunk_usage (snd tc) = None"
    and "stream_loop chunks (stream_state_init d) = Inr s"
  shows "completion_tokens (stream_metrics s) = Some (int (length (filter has_choice chunks)))"
    and "completion_time (stream_metrics s) = None" and "prompt_time (stream_metrics s) = None"
    and "queue_time (stream_metrics s) = None" and "total_time (stream_metrics s) = None"
proof -
  have "completion_tokens (stream_metrics (stream_state_init d)) = Some 0"
    by (simp add: stream_state_init_def Metrics_init_def)
  from stream_loop_no_usage [OF assms(1) this] assms(2)
  have "stream_metrics s =
          (stream_metrics (stream_state_init d))\<lparr>completion_tokens :=
              Some (0 + int (length (filter has_choice chunks))),
            time_to_first_token :=
              (case first_choice_time chunks of
                 None \<Rightarrow> time_to_first_token (stream_metrics (stream_state_init d))
               | Some t \<Rightarrow> Some t)\<rparr>"
    by auto
  then show "completion_tokens (stream_metrics s) = Some (int (length (filter has_choice chunks)))"
    and "completion_time (stream_metrics s) = None" and "prompt_time (stream_metrics s) = None"
    and "queue_time (stream_metrics s) = None" and "total_time (stream_metrics s) = None"
    by (simp_all add: stream_state_init_def Metrics_init_def)
qed

text \<open>
  C3 (as amended). On the non-streaming path, a counter the vendor's usage block does
  not report leaves the adapter's lifetime entry for it unchanged. On the streaming
  path, a counter whose per-call Metrics field is None when the stream ends leaves the
  lifetime entry unchanged; when no chunk carries a usage block this is so for the four
  timing counters, but not for completion_tokens: the adapter counts one per chunk that
  has a choice, and the lifetime completion_tokens entry grows by that count.
\<close>

theorem unreported_counter_frame:
  "(reported_value ru k = None \<longrightarrow>
      metrics (adapter_of (create_assistant_message fadd self rm m0 elapsed ru)) k = metrics self k)
   \<and> (stream_model_call fadd d build self messages chunks t_stop = (Inr (out, m), self', messages') \<longrightarrow>
        (metric_value m k = None \<longrightarrow> metrics self' k = metrics self k)
      \<and> ((\<forall>tc\<in>set chunks. chunk_usage (snd tc) = None) \<longrightarrow>
            completion_time m = None \<and> prompt_time m = None
          \<and> queue_time m = None \<and> total_time m = None
          \<and> metrics self' ''completion_tokens'' =
              Some (py_add fadd (dict_get (metrics self) ''completion_tokens'' (PInt 0))
                      (PInt (int (length (filter has_choice chunks)))))))"
proof (intro conjI impI)
  assume "reported_value ru k = None"
  then show "metrics (adapter_of (create_assistant_message fadd self rm m0 elapsed ru)) k = metrics self k"
    by (simp add: lifetime_create_assistant_message)
next
  assume e: "stream_model_call fadd d build self messages chunks t_stop = (Inr (out, m), self', messages')"
    and "metric_value m k = None"
  from e obtain s where "stream_loop chunks (stream_state_init d) = Inr s"
    and "out = yielded s" and "m = stream_metrics s"
    and "self' = fst (update_stream_metrics fadd self
                  (stream_assistant_message build (stream_data s)) m t_stop)"
    by (rule stream_model_call_result)
  with \<open>metric_value m k = None\<close> show "metrics self' k = metrics self k"
    by (simp add: lifetime_update_stream_metrics)
next
  assume e: "stream_model_call fadd d build self messages chunks t_stop = (Inr (out, m), self', messages')"
    and nu: "\<forall>tc\<in>set chunks. chunk_usage (snd tc) = None"
  from e obtain s where s: "stream_loop chunks (stream_state_init d) = Inr s"
    and "out = yielded s" and m: "m = stream_metrics s"
    and self': "self' = fst (update_stream_metrics fadd self
                  (stream_assistant_message build (stream_data s)) m t_stop)"
    by (rule stream_model_call_result)
  note t = stream_loop_no_usage_times [OF nu s]
  from t m show "completion_time m = None" and "prompt_time m = None"
    and "queue_time m = None" and "total_time m = None"
    by simp_all
  from t(1) m have "metric_value m ''completion_tokens'' =
      Some (PInt (int (length (filter has_choice chunks))))"
    by (simp add: metric_value_def)
  with self' show "metrics self' ''completion_tokens'' =
      Some (py_add fadd (dict_get (metrics self) ''completion_tokens'' (PInt 0))
              (PInt (int (length (filter has_choice chunks)))))"
    by (simp add: lifetime_update_stream_metrics)
qed

lemma no_usage_stream_loop:
  "stream_loop no_usage_stream (stream_state_init zero_defaults) =
     Inr \<lparr> stream_data = \<lparr> response_content = ''Hello world'', response_tool_calls = None \<rparr>,
           stream_metrics = (Metrics_init zero_defaults)\<lparr>completion_tokens := Some 2,
                               time_to_first_token := Some 1\<rparr>,
           yielded = [\<lparr>mr_content = Some ''Hello''\<rparr>, \<lparr>mr_content = Some '' world''\<rparr>] \<rparr>"
  by (simp add: no_usage_stream_def content_chunk_def stream_chunk_def on_choice_def on_usage_def
      stream_state_init_def Metrics_init_def StreamData_init_def Let_def)

theorem unreported_counter_frame_witness:
  "metrics (adapter_of (create_assistant_message (+) used_adapter (text_message ''Hi'')
      (Metrics_init zero_defaults) 1 None)) ''completion_tokens'' = Some (PInt 10)
   \<and> metrics (fst (snd (stream_model_call (+) zero_defaults build_each used_adapter []
        no_usage_stream 3))) ''total_time'' = None
   \<and> metrics (fst (snd (stream_model_call (+) zero_defaults build_each used_adapter []
        no_usage_stream 3))) ''completion_tokens'' = Some (PInt 12)"
proof -
  let ?m = "(Metrics_init zero_defaults)\<lparr>completion_tokens := Some 2, time_to_first_token := Some 1\<rparr>"
  let ?sd = "\<lparr> response_content = ''Hello world'', response_tool_calls = None \<rparr>"
  let ?out = "[\<lparr>mr_content = Some ''Hello''\<rparr>, \<lparr>mr_content = Some '' world''\<rparr>]"
  let ?u = "update_stream_metrics (+) used_adapter (stream_assistant_message build_each ?sd) ?m 3"
  have e: "stream_model_call (+) zero_defaults build_each used_adapter [] no_usage_stream 3 =
             (Inr (?out, ?m), fst ?u, [snd ?u])"
    unfolding stream_model_call_def no_usage_stream_loop by (simp add: split_beta Let_def)
  have h: "\<forall>tc\<in>set no_usage_stream. chunk_usage (snd tc) = None"
    by (simp add: no_usage_stream_def content_chunk_def)
  have r: "reported_value None ''completion_tokens'' = None"
    by (simp add: reported_value_def)
  have v: "metric_value ?m ''total_time'' = None"
    by (simp add: metric_value_def Metrics_init_def)
  have n: "length (filter has_choice no_usage_stream) = 2"
    by (simp add: no_usage_stream_def content_chunk_def has_choice_pair)
  have u: "metrics used_adapter ''completion_tokens'' = Some (PInt 10)"
    "metrics used_adapter ''total_time'' = None"
    by (simp_all add: used_adapter_def Groq_init_def)
  from unreported_counter_frame [where ru = None and k = "''completion_tokens''"
      and self = used_adapter and rm = "text_message ''Hi''" and ?m0.0 = "Metrics_init zero_defaults"
      and elapsed = 1 and d = zero_defaults and build = build_each and messages = "[]"
      and chunks = no_usage_stream and t_stop = 3 and out = ?out and m = ?m and self' = "fst ?u"
      and messages' = "[snd ?u]"]
    unreported_counter_frame [where ru = None and k = "''total_time''"
      and self = used_adapter and rm = "text_message ''Hi''" and ?m0.0 = "Metrics_init zero_defaults"
      and elapsed = 1 and d = zero_defaults and build = build_each and messages = "[]"
      and chunks = no_usage_stream and t_stop = 3 and out = ?out and m = ?m and self' = "fst ?u"
      and messages' = "[snd ?u]"]
    e h r v n u
  show ?thesis
    by (simp add: dict_get_def)
qed

text \<open>
  C3, the claim as stated, fails on the streaming path for completion_tokens: on an
  adapter whose lifetime completion_tokens entry is 10, a stream of two content chunks
  in which the vendor reports no usage at all leaves the entry at 12.
\<close>

theorem unreported_counter_counterexample:
  "metrics used_adapter ''completion_tokens'' = Some (PInt 10)
   \<and> map (chunk_usage \<circ> snd) no_usage_stream = [None, None]
   \<and> metrics (fst (snd (stream_model_call (+) zero_defaults build_each used_adapter []
        no_usage_stream 3))) ''completion_tokens'' = Some (PInt 12)"
proof -
  let ?m = "(Metrics_init zero_defaults)\<lparr>completion_tokens := Some 2, time_to_first_token := Some 1\<rparr>"
  let ?sd = "\<lparr> response_content = ''Hello world'', response_tool_calls = None \<rparr>"
  let ?u = "update_stream_metrics (+) used_adapter (stream_assistant_message build_each ?sd) ?m 3"
  have e: "snd (stream_model_call (+) zero_defaults build_each used_adapter [] no_usage_stream 3) =
             (fst ?u, [snd ?u])"
    unfolding stream_model_call_def no_usage_stream_loop by (simp add: split_beta Let_def)
  have "metrics (fst ?u) ''completion_tokens'' = Some (PInt 12)"
    unfolding lifetime_update_stream_metrics
    by (simp add: metric_value_def used_adapter_def Groq_init_def dict_get_def)
  then show ?thesis
    by (simp add: e) (simp add: used_adapter_def Groq_init_def no_usage_stream_def content_chunk_def)
qed

lemma run_call_step:
  assumes "run_call fadd d build self c = Inr (self1, m)" and "call_reports d c k"
  shows "\<exists>v. metric_value m k = Some v \<and>
           metrics self1 k = Some (py_add fadd (dict_get (metrics self) k (PInt 0)) v)"
proof (cases c)
  case (Completion rm elapsed ru)
  with assms(2) obtain v where v: "reported_value ru k = Some v"
    by auto
  from assms(1) Completion
  have "self1 = adapter_of (create_assistant_message fadd self rm (Metrics_init d) elapsed ru)"
    and "m = metrics_of (create_assistant_message fadd self rm (Metrics_init d) elapsed ru)"
    by (simp_all add: Let_def)
  with v show ?thesis
    by (simp add: lifetime_create_assistant_message metrics_of_create_assistant_message)
next
  case (Streamed chunks t_stop)
  with assms(1) obtain out messages'
    where e: "stream_model_call fadd d build self [] chunks t_stop = (Inr (out, m), self1, messages')"
    by (auto split: prod.splits sum.splits)
  from e obtain s where s: "stream_loop chunks (stream_state_init d) = Inr s"
    and "out = yielded s" and m: "m = stream_metrics s"
    and self1: "self1 = fst (update_stream_metrics fadd self
                  (stream_assistant_message build (stream_data s)) m t_stop)"
    by (rule stream_model_call_result)
  from assms(2) Streamed s m obtain v where "metric_value m k = Some v"
    by auto
  with self1 show ?thesis
    by (simp add: lifetime_update_stream_metrics)
qed

lemma run_calls_sum:
  assumes "run_calls fadd d build self calls = Inr (self', ms)"
    and "\<forall>c\<in>set calls. call_reports d c k"
  shows "length ms = length calls \<and>
         (\<exists>vs. map (\<lambda>m. metric_value m k) ms = map Some vs \<and>
            dict_get (metrics self') k (PInt 0) =
              foldl (py_add fadd) (dict_get (metrics self) k (PInt 0)) vs \<and>
            (calls \<noteq> [] \<longrightarrow> metrics self' k \<noteq> None) \<and>
            (metrics self k \<noteq> None \<longrightarrow> metrics self' k \<noteq> None))"
  using assms
proof (induction calls arbitrary: self self' ms)
  case Nil
  then show ?case by simp
next
  case (Cons c calls)
  from Cons.prems(1) obtain self1 m ms1
    where c: "run_call fadd d build self c = Inr (self1, m)"
      and r: "run_calls fadd d build self1 calls = Inr (self', ms1)"
      and ms: "ms = m # ms1"
    by (auto split: sum.splits prod.splits)
  from Cons.prems(2) have rc: "call_reports d c k"
    and rs: "\<forall>c\<in>set calls. call_reports d c k"
    by simp_all
  from run_call_step [OF c rc] obtain v
    where v: "metric_value m k = Some v"
      and l1: "metrics self1 k = Some (py_add fadd (dict_get (metrics self) k (PInt 0)) v)"
    by blast
  from Cons.IH [OF r rs] obtain vs
    where len: "length ms1 = length calls"
      and vs: "map (\<lambda>m. metric_value m k) ms1 = map Some vs"
      and sum: "dict_get (metrics self') k (PInt 0) =
                  foldl (py_add fadd) (dict_get (metrics self1) k (PInt 0)) vs"
      and ne: "metrics self1 k \<noteq> None \<longrightarrow> metrics self' k \<noteq> None"
    by blast
  have g: "dict_get (metrics self1) k (PInt 0) = py_add fadd (dict_get (metrics self) k (PInt 0)) v"
    by (simp add: dict_get_def l1)
  have "map (\<lambda>m. metric_value m k) ms = map Some (v # vs)"
    by (simp add: ms v vs)
  moreover have "dict_get (metrics self') k (PInt 0) =
                   foldl (py_add fadd) (dict_get (metrics self) k (PInt 0)) (v # vs)"
    by (simp add: sum g)
  moreover have "metrics self' k \<noteq> None"
    using ne l1 by simp
  ultimately show ?case
    using len ms by (intro conjI exI [of _ "v # vs"]) simp_all
qed

text \<open>Python's \<open>+\<close>, folded over ints and over floats.\<close>

lemma foldl_py_add_ints:
  "foldl (py_add fadd) (PInt a) (map PInt ns) = PInt (a + sum_list ns)"
  by (induction ns arbitrary: a) (simp_all add: ac_simps)

lemma foldl_py_add_floats:
  "foldl (py_add fadd) (PFloat a) (map PFloat xs) = PFloat (foldl fadd a xs)"
  by (induction xs arbitrary: a) simp_all

lemma foldl_py_add_floats_from_zero:
  "xs \<noteq> [] \<Longrightarrow> foldl (py_add fadd) (PInt 0) (map PFloat xs) = PFloat (foldl fadd 0 xs)"
  by (cases xs) (simp_all add: foldl_py_add_floats)

lemma metric_value_token_key:
  assumes "k \<in> set token_keys" and "metric_value m k = Some v"
  shows "\<exists>n. v = PInt n"
  using assms by (auto simp: token_keys_def metric_value_def)

lemma metric_value_time_key:
  assumes "k \<in> set time_keys" and "metric_value m k = Some v"
  shows "\<exists>x. v = PFloat x"
  using assms by (auto simp: time_keys_def metric_value_def)

lemma values_of_calls:
  assumes "map (\<lambda>m. metric_value m k) ms = map Some vs"
    and "\<And>m v. metric_value m k = Some v \<Longrightarrow> \<exists>x. v = f x"
  shows "\<exists>xs. vs = map f xs"
proof -
  have "\<exists>x. v = f x" if "v \<in> set vs" for v
  proof -
    from that have "Some v \<in> set (map Some vs)" by simp
    with assms(1) have "Some v \<in> set (map (\<lambda>m. metric_value m k) ms)" by simp
    then obtain m where "metric_value m k = Some v" by auto
    then show ?thesis by (rule assms(2))
  qed
  then show ?thesis
    by (simp add: ex_map_conv)
qed

text \<open>
  C6. For every sequence of completed calls on one adapter, non-streaming or streaming,
  and every counter that every one of them reports, there is one per-call Metrics
  object per call and each holds a value for the counter. For a token counter these
  values are ints, and the adapter's lifetime entry after the calls is its value before
  them plus their sum; on an adapter whose lifetime mapping had no entry for the
  counter, the entry after N \<ge> 1 calls is the sum of the N per-call values. For a
  timing counter the values are floats and the same holds of the sum the machine
  computes: the per-call values added one after the other, in call order, to the value
  before the calls (to 0 when the entry was absent), each addition being the rounded
  float addition \<open>fadd\<close>, whatever it is.
\<close>

theorem lifetime_is_sum_of_calls:
  assumes "run_calls fadd d build self calls = Inr (self', ms)"
    and "\<forall>c\<in>set calls. call_reports d c k"
  shows "length ms = length calls
       \<and> (k \<in> set token_keys \<longrightarrow>
            (\<exists>ns. map (\<lambda>m. metric_value m k) ms = map (\<lambda>n. Some (PInt n)) ns
               \<and> (metrics self k = None \<longrightarrow> calls \<noteq> [] \<longrightarrow>
                    metrics self' k = Some (PInt (sum_list ns)))
               \<and> (\<forall>a. metrics self k = Some (PInt a) \<longrightarrow>
                    metrics self' k = Some (PInt (a + sum_list ns)))))
       \<and> (k \<in> set time_keys \<longrightarrow>
            (\<exists>xs. map (\<lambda>m. metric_value m k) ms = map (\<lambda>x. Some (PFloat x)) xs
               \<and> (metrics self k = None \<longrightarrow> calls \<noteq> [] \<longrightarrow>
                    metrics self' k = Some (PFloat (foldl fadd 0 xs)))
               \<and> (\<forall>a. metrics self k = Some (PFloat a) \<longrightarrow>
                    metrics self' k = Some (PFloat (foldl fadd a xs)))))"
proof -
  from run_calls_sum [OF assms] obtain vs
    where len: "length ms = length calls"
      and vs: "map (\<lambda>m. metric_value m k) ms = map Some vs"
      and sum: "dict_get (metrics self') k (PInt 0) =
                  foldl (py_add fadd) (dict_get (metrics self) k (PInt 0)) vs"
      and ne: "calls \<noteq> [] \<longrightarrow> metrics self' k \<noteq> None"
      and keep: "metrics self k \<noteq> None \<longrightarrow> metrics self' k \<noteq> None"
    by blast
  from vs have lvs: "length vs = length ms"
    by (metis length_map)
  have after: "metrics self' k = Some (foldl (py_add fadd) (dict_get (metrics self) k (PInt 0)) vs)"
    if "metrics self' k \<noteq> None"
    using that sum by (auto simp: dict_get_def)
  have tok: "\<exists>ns. map (\<lambda>m. metric_value m k) ms = map (\<lambda>n. Some (PInt n)) ns
               \<and> (metrics self k = None \<longrightarrow> calls \<noteq> [] \<longrightarrow>
                    metrics self' k = Some (PInt (sum_list ns)))
               \<and> (\<forall>a. metrics self k = Some (PInt a) \<longrightarrow>
                    metrics self' k = Some (PInt (a + sum_list ns)))"
    if k: "k \<in> set token_keys"
  proof -
    from values_of_calls [OF vs, of PInt] metric_value_token_key [OF k]
    obtain ns where ns: "vs = map PInt ns" by blast
    have "map (\<lambda>m. metric_value m k) ms = map (\<lambda>n. Some (PInt n)) ns"
      by (simp add: vs ns)
    moreover have "metrics self' k = Some (PInt (sum_list ns))"
      if "metrics self k = None" and "calls \<noteq> []"
      using after ne that by (simp add: dict_get_def ns foldl_py_add_ints)
    moreover have "metrics self' k = Some (PInt (a + sum_list ns))"
      if "metrics self k = Some (PInt a)" for a
      using after keep that by (simp add: dict_get_def ns foldl_py_add_ints)
    ultimately show ?thesis
      by (intro exI [of _ ns] conjI allI impI)
  qed
  have tim: "\<exists>xs. map (\<lambda>m. metric_value m k) ms = map (\<lambda>x. Some (PFloat x)) xs
               \<and> (metrics self k = None \<longrightarrow> calls \<noteq> [] \<longrightarrow>
                    metrics self' k = Some (PFloat (foldl fadd 0 xs)))
               \<and> (\<forall>a. metrics self k = Some (PFloat a) \<longrightarrow>
                    metrics self' k = Some (PFloat (foldl fadd a xs)))"
    if k: "k \<in> set time_keys"
  proof -
    from values_of_calls [OF vs, of PFloat] metric_value_time_key [OF k]
    obtain xs where xs: "vs = map PFloat xs" by blast
    have "map (\<lambda>m. metric_value m k) ms = map (\<lambda>x. Some (PFloat x)) xs"
      by (simp add: vs xs)
    moreover have "metrics self' k = Some (PFloat (foldl fadd 0 xs))"
      if n: "metrics self k = None" and c: "calls \<noteq> []"
    proof -
      from c len lvs xs have "xs \<noteq> []" by auto
      then show ?thesis
        using after ne n c by (simp add: dict_get_def xs foldl_py_add_floats_from_zero)
    qed
    moreover have "metrics self' k = Some (PFloat (foldl fadd a xs))"
      if "metrics self k = Some (PFloat a)" for a
      using after keep that by (simp add: dict_get_def xs foldl_py_add_floats)
    ultimately show ?thesis
      by (intro exI [of _ xs] conjI allI impI)
  qed
  from len tok tim show ?thesis
    by (intro conjI impI)
qed

lemma timed_stream_result:
  "stream_loop timed_stream (stream_state_init zero_defaults) =
     Inr \<lparr> stream_data = \<lparr> response_content = ''Hello world'', response_tool_calls = None \<rparr>,
           stream_metrics = add_response_usage_to_metrics
             ((Metrics_init zero_defaults)\<lparr>completion_tokens := Some 2,
                 time_to_first_token := Some 1\<rparr>) (timed_usage 5 2 7 (1 / 2)),
           yielded = [\<lparr>mr_content = Some ''Hello''\<rparr>, \<lparr>mr_content = Some '' world''\<rparr>] \<rparr>"
  by (simp add: timed_stream_def content_chunk_def usage_chunk_def stream_chunk_def on_choice_def
      on_usage_def stream_state_init_def Metrics_init_def StreamData_init_def Let_def)

theorem lifetime_is_sum_of_calls_witness:
  "\<exists>self' m1 m2. run_calls (+) zero_defaults build_each Groq_init two_calls = Inr (self', [m1, m2])
     \<and> metric_value m1 ''total_tokens'' = Some (PInt 7)
     \<and> metric_value m2 ''total_tokens'' = Some (PInt 7)
     \<and> metrics self' ''total_tokens'' = Some (PInt 14)
     \<and> metric_value m1 ''total_time'' = Some (PFloat (1 / 4))
     \<and> metric_value m2 ''total_time'' = Some (PFloat (1 / 2))
     \<and> metrics self' ''total_time'' = Some (PFloat (3 / 4))"
proof -
  let ?k = "''total_tokens''"
  let ?t = "''total_time''"
  let ?c1 = "create_assistant_message (+) Groq_init (text_message ''Hi'') (Metrics_init zero_defaults) 1
               (Some (timed_usage 5 2 7 (1 / 4)))"
  let ?m2 = "add_response_usage_to_metrics
             ((Metrics_init zero_defaults)\<lparr>completion_tokens := Some 2,
                 time_to_first_token := Some 1\<rparr>) (timed_usage 5 2 7 (1 / 2))"
  let ?sd = "\<lparr> response_content = ''Hello world'', response_tool_calls = None \<rparr>"
  let ?u = "update_stream_metrics (+) (adapter_of ?c1) (stream_assistant_message build_each ?sd) ?m2 3"
  have e: "run_calls (+) zero_defaults build_each Groq_init two_calls =
             Inr (fst ?u, [metrics_of ?c1, ?m2])"
    unfolding two_calls_def run_calls.simps run_call.simps stream_model_call_def timed_stream_result
    by (simp add: split_beta Let_def)
  have rv: "reported_value (Some (timed_usage 5 2 7 (1 / 4))) ?k = Some (PInt 7)"
    "reported_value (Some (timed_usage 5 2 7 (1 / 2))) ?k = Some (PInt 7)"
    "reported_value (Some (timed_usage 5 2 7 (1 / 4))) ?t = Some (PFloat (1 / 4))"
    "reported_value (Some (timed_usage 5 2 7 (1 / 2))) ?t = Some (PFloat (1 / 2))"
    by (simp_all add: reported_value_def timed_usage_def token_usage_def)
  have v1: "metric_value (metrics_of ?c1) ?k = Some (PInt 7)"
    "metric_value (metrics_of ?c1) ?t = Some (PFloat (1 / 4))"
    using rv by (simp_all add: metrics_of_create_assistant_message)
  have v2: "metric_value ?m2 ?k = Some (PInt 7)" "metric_value ?m2 ?t = Some (PFloat (1 / 2))"
    using rv by (simp_all add: usage_chunk_metrics)
  have h: "\<forall>c\<in>set two_calls. call_reports zero_defaults c ?k"
    "\<forall>c\<in>set two_calls. call_reports zero_defaults c ?t"
    unfolding two_calls_def by (simp_all add: rv timed_stream_result v2)
  have f: "metrics Groq_init ?k = None" "metrics Groq_init ?t = None" "two_calls \<noteq> []"
    "?k \<in> set token_keys" "?t \<in> set time_keys"
    by (simp_all add: Groq_init_def two_calls_def token_keys_def time_keys_def)
  from lifetime_is_sum_of_calls [OF e h(1), THEN conjunct2, THEN conjunct1, rule_format, OF f(4)]
  obtain ns
    where ns: "map (\<lambda>m. metric_value m ?k) [metrics_of ?c1, ?m2] = map (\<lambda>n. Some (PInt n)) ns"
      and s: "metrics Groq_init ?k = None \<longrightarrow> two_calls \<noteq> [] \<longrightarrow>
                metrics (fst ?u) ?k = Some (PInt (sum_list ns))"
    by (elim exE conjE)
  from ns have "map (\<lambda>n. Some (PInt n)) ns = [Some (PInt 7), Some (PInt 7)]"
    unfolding list.map v1 v2 by simp
  then have "ns = [7, 7]"
    by (auto simp: map_eq_Cons_conv)
  with s f have l: "metrics (fst ?u) ?k = Some (PInt 14)"
    by simp
  from lifetime_is_sum_of_calls [OF e h(2), THEN conjunct2, THEN conjunct2, rule_format, OF f(5)]
  obtain xs
    where xs: "map (\<lambda>m. metric_value m ?t) [metrics_of ?c1, ?m2] = map (\<lambda>x. Some (PFloat x)) xs"
      and t: "metrics Groq_init ?t = None \<longrightarrow> two_calls \<noteq> [] \<longrightarrow>
                metrics (fst ?u) ?t = Some (PFloat (foldl (+) 0 xs))"
    by (elim exE conjE)
  from xs have "map (\<lambda>x. Some (PFloat x)) xs = [Some (PFloat (1 / 4)), Some (PFloat (1 / 2))]"
    unfolding list.map v1 v2 by simp
  then have "xs = [1 / 4, 1 / 2]"
    by (auto simp: map_eq_Cons_conv)
  with t f have lt: "metrics (fst ?u) ?t = Some (PFloat (3 / 4))"
    by simp
  from e v1 v2 l lt show ?thesis
    by (intro exI conjI)
qed

section \<open>Properties of the request parameters\<close>

lemma put_if_truthy_apply:
  "put_if_truthy k' v rp k = (if k = k' \<and> truthy v then Some v else rp k)"
  by (simp add: put_if_truthy_def)

lemma put_if_truthy_falsy:
  "\<not> truthy v \<Longrightarrow> put_if_truthy k v rp = rp"
  by (simp add: put_if_truthy_def)

lemma dict_update_other:
  "k \<notin> fst ` set kvs \<Longrightarrow> dict_update d kvs k = d k"
  by (induction d kvs rule: dict_update.induct) auto

lemma dict_update_last:
  "distinct (map fst kvs) \<Longrightarrow> (k, v) \<in> set kvs \<Longrightarrow> dict_update d kvs k = Some v"
proof (induction d kvs rule: dict_update.induct)
  case (1 d)
  then show ?case by simp
next
  case (2 d k' v' kvs)
  show ?case
  proof (cases "(k, v) = (k', v')")
    case True
    with "2.prems"(1) have "k \<notin> fst ` set kvs" by simp
    from dict_update_other [OF this] True show ?thesis by simp
  next
    case False
    with "2.prems" have a: "distinct (map fst kvs)" and b: "(k, v) \<in> set kvs" by auto
    show ?thesis
      unfolding dict_update.simps by (rule "2.IH" [OF a b])
  qed
qed

lemma request_kwargs_merged_last:
  assumes "request_params self = Some kvs" and "distinct (map fst kvs)" and "(k, v) \<in> set kvs"
  shows "request_kwargs self k = Some v"
proof -
  from assms(3) have "kvs \<noteq> []" by auto
  with assms(1) dict_update_last [OF assms(2,3)] show ?thesis
    unfolding request_kwargs_def Let_def by (simp add: py_opt_def)
qed

lemma request_kwargs_own_key:
  assumes "k \<notin> overridden self" and "k \<noteq> ''tools''" and "k \<noteq> ''tool_choice''"
  shows "request_kwargs self k =
     (put_if_truthy ''extra_query'' (extra_query self)
     (put_if_truthy ''extra_headers'' (extra_headers self)
     (put_if_truthy ''user'' (py_opt VStr (user self))
     (put_if_truthy ''top_p'' (py_opt VFloat (top_p self))
     (put_if_truthy ''top_logprobs'' (py_opt VInt (top_logprobs self))
     (put_if_truthy ''temperature'' (py_opt VFloat (temperature self))
     (put_if_truthy ''stop'' (stop self)
     (put_if_truthy ''seed'' (py_opt VInt (seed self))
     (put_if_truthy ''response_format'' (py_opt VDict (response_format self))
     (put_if_truthy ''presence_penalty'' (py_opt VFloat (presence_penalty self))
     (put_if_truthy ''max_tokens'' (py_opt VInt (max_tokens self))
     (put_if_truthy ''logprobs'' (py_opt VBool (logprobs self))
     (put_if_truthy ''logit_bias'' (logit_bias self)
     (put_if_truthy ''frequency_penalty'' (py_opt VFloat (frequency_penalty self))
        Map.empty)))))))))))))) k"
proof -
  from assms(1) have "k \<notin> fst ` set (case request_params self of None \<Rightarrow> [] | Some kvs \<Rightarrow> kvs)"
    by (simp add: overridden_def)
  from dict_update_other [OF this] assms(2,3) show ?thesis
    unfolding request_kwargs_def Let_def by simp
qed

lemma request_kwargs_falsy:
  "request_kwargs (self\<lparr>temperature := Some 0\<rparr>) = request_kwargs (self\<lparr>temperature := None\<rparr>)"
  "request_kwargs (self\<lparr>seed := Some 0\<rparr>) = request_kwargs (self\<lparr>seed := None\<rparr>)"
  "request_kwargs (self\<lparr>frequency_penalty := Some 0\<rparr>)
     = request_kwargs (self\<lparr>frequency_penalty := None\<rparr>)"
  "request_kwargs (self\<lparr>presence_penalty := Some 0\<rparr>)
     = request_kwargs (self\<lparr>presence_penalty := None\<rparr>)"
  "request_kwargs (self\<lparr>logprobs := Some False\<rparr>) = request_kwargs (self\<lparr>logprobs := None\<rparr>)"
  unfolding request_kwargs_def Let_def
  by (simp_all add: py_opt_def put_if_truthy_falsy)

text \<open>
  C9 (as amended). For every adapter instance and each of its fourteen request
  parameters whose key the \<open>request_params\<close> dictionary does not supply itself, the
  request carries the parameter, with its value, if and only if the value is truthy.
  The entries of \<open>request_params\<close> are merged in last: every key the dictionary
  supplies is carried with the dictionary's value, whatever that value is and whatever
  the adapter's own field of that name holds (the items of a dictionary have distinct
  keys). In every case a parameter set to a falsy value (temperature 0.0, seed 0,
  frequency_penalty 0.0, presence_penalty 0.0, logprobs False) gives exactly the request
  of the adapter with that parameter left unset.
\<close>

theorem request_kwargs_truthy:
  "(\<forall>(k, v)\<in>set (sampling_params self).
      k \<notin> overridden self \<longrightarrow> request_kwargs self k = (if truthy v then Some v else None))
   \<and> (\<forall>kvs. request_params self = Some kvs \<longrightarrow> distinct (map fst kvs) \<longrightarrow>
        (\<forall>(k, v)\<in>set kvs. request_kwargs self k = Some v))
   \<and> request_kwargs (self\<lparr>temperature := Some 0\<rparr>) = request_kwargs (self\<lparr>temperature := None\<rparr>)
   \<and> request_kwargs (self\<lparr>seed := Some 0\<rparr>) = request_kwargs (self\<lparr>seed := None\<rparr>)
   \<and> request_kwargs (self\<lparr>frequency_penalty := Some 0\<rparr>)
       = request_kwargs (self\<lparr>frequency_penalty := None\<rparr>)
   \<and> request_kwargs (self\<lparr>presence_penalty := Some 0\<rparr>)
       = request_kwargs (self\<lparr>presence_penalty := None\<rparr>)
   \<and> request_kwargs (self\<lparr>logprobs := Some False\<rparr>) = request_kwargs (self\<lparr>logprobs := None\<rparr>)"
proof (intro conjI)
  show "\<forall>(k, v)\<in>set (sampling_params self).
      k \<notin> overridden self \<longrightarrow> request_kwargs self k = (if truthy v then Some v else None)"
    by (simp add: sampling_params_def request_kwargs_own_key put_if_truthy_apply)
next
  show "\<forall>kvs. request_params self = Some kvs \<longrightarrow> distinct (map fst kvs) \<longrightarrow>
        (\<forall>(k, v)\<in>set kvs. request_kwargs self k = Some v)"
    using request_kwargs_merged_last [of self] by auto
qed (rule request_kwargs_falsy)+

text \<open>
  An adapter with a temperature of 0.7, a seed of 0 and no other parameter; and an
  adapter with a seed of 7 whose \<open>request_params\<close> dictionary holds a seed of 0.
\<close>

theorem request_kwargs_truthy_witness:
  "request_kwargs (Groq_init\<lparr>temperature := Some 0.7, seed := Some 0\<rparr>) ''temperature''
     = Some (VFloat 0.7)
   \<and> request_kwargs (Groq_init\<lparr>temperature := Some 0.7, seed := Some 0\<rparr>) ''seed'' = None
   \<and> request_kwargs (Groq_init\<lparr>temperature := Some 0\<rparr>) = request_kwargs Groq_init
   \<and> request_kwargs (Groq_init\<lparr>seed := Some 7, request_params := Some [(''seed'', VInt 0)]\<rparr>) ''seed''
       = Some (VInt 0)"
proof -
  let ?g = "Groq_init\<lparr>temperature := Some 0.7, seed := Some 0\<rparr>"
  let ?h = "Groq_init\<lparr>seed := Some 7, request_params := Some [(''seed'', VInt 0)]\<rparr>"
  from request_kwargs_truthy [of ?h] have
    "\<forall>kvs. request_params ?h = Some kvs \<longrightarrow> distinct (map fst kvs) \<longrightarrow>
        (\<forall>(k, v)\<in>set kvs. request_kwargs ?h k = Some v)"
    by (elim conjE)
  then have l: "request_kwargs ?h ''seed'' = Some (VInt 0)"
    by (simp add: Groq_init_def)
  have o: "overridden ?g = {}"
    by (simp add: overridden_def Groq_init_def)
  have m: "(''temperature'', VFloat 0.7) \<in> set (sampling_params ?g)"
    "(''seed'', VInt 0) \<in> set (sampling_params ?g)"
    by (simp_all add: sampling_params_def py_opt_def Groq_init_def)
  have n: "Groq_init\<lparr>temperature := None\<rparr> = Groq_init"
    by (simp add: Groq_init_def)
  from request_kwargs_truthy [of ?g] have
    "\<forall>(k, v)\<in>set (sampling_params ?g).
      k \<notin> overridden ?g \<longrightarrow> request_kwargs ?g k = (if truthy v then Some v else None)"
    by (elim conjE)
  with m o have "request_kwargs ?g ''temperature'' = Some (VFloat 0.7)"
    and "request_kwargs ?g ''seed'' = None"
    by fastforce+
  moreover from request_kwargs_truthy [of Groq_init] n
  have "request_kwargs (Groq_init\<lparr>temperature := Some 0\<rparr>) = request_kwargs Groq_init"
    by simp
  ultimately show ?thesis using l by simp
qed

text \<open>
  C9, the claim as stated, fails: an adapter whose temperature is left unset and whose
  \<open>request_params\<close> dictionary holds a temperature of 0.0 sends the key "temperature",
  with the falsy value 0.0.
\<close>

theorem request_kwargs_counterexample:
  "temperature (Groq_init\<lparr>request_params := Some [(''temperature'', VFloat 0)]\<rparr>) = None
   \<and> request_kwargs (Groq_init\<lparr>request_params := Some [(''temperature'', VFloat 0)]\<rparr>) ''temperature''
       = Some (VFloat 0)"
  unfolding request_kwargs_def Let_def
  by (simp add: Groq_init_def py_opt_def put_if_truthy_apply)

section \<open>Properties of the non-streaming call and of the tool-call loop\<close>

lemma get_client_adapter:
  "fst (get_client env self) =
     (if client self = None
      then self\<lparr>api_key := (if truthy (py_opt VStr (api_key self)) then api_key self
                              else getenv env ''GROQ_API_KEY'')\<rparr>
      else self)"
  by (cases "client self") (simp_all add: get_client_def get_client_params_def Let_def split_beta)

lemma invoke_adapter:
  "fst (invoke env self messages) = fst (get_client env self)"
  by (simp add: invoke_def split: prod.splits sum.splits)

text \<open>
  C2 (as amended). If the vendor call made inside \<open>response\<close> fails, the exception of
  the vendor client comes out of \<open>response\<close> as it is (the adapter adds neither its
  model id nor a vendor name nor a status code of its own to it), and the conversation
  list passed in is left unmodified: no assistant Message is appended. The adapter is
  then as \<open>get_client\<close> leaves it: unchanged when it holds a client, and otherwise
  unchanged but for its \<open>api_key\<close>, which is read from the environment when the
  adapter has none.
\<close>

theorem response_vendor_error:
  assumes "snd (invoke env self messages) = Inl e"
  shows "response (Suc n) env self messages = Some (Inl e, fst (invoke env self messages), messages)
       \<and> fst (invoke env self messages) =
           (if client self = None
            then self\<lparr>api_key := (if truthy (py_opt VStr (api_key self)) then api_key self
                                    else getenv env ''GROQ_API_KEY'')\<rparr>
            else self)"
proof -
  obtain self0 where i: "invoke env self messages = (self0, Inl e)"
    using assms by (cases "invoke env self messages") simp
  then have "response (Suc n) env self messages = Some (Inl e, self0, messages)"
    by (simp add: response_call_def)
  with i show ?thesis
    using invoke_adapter [of env self messages] get_client_adapter [of env self] by simp
qed

theorem response_vendor_error_witness:
  "response (Suc 0) not_found_env Groq_init [user_message ''hi'']
     = Some (Inl (APIStatusError 404 ''Not Found''), Groq_init\<lparr>api_key := Some ''gsk_test''\<rparr>,
             [user_message ''hi''])"
proof -
  have "snd (invoke not_found_env Groq_init [user_message ''hi'']) =
          Inl (APIStatusError 404 ''Not Found'')"
    by (simp add: invoke_def get_client_def get_client_params_def not_found_env_def Groq_init_def
        Let_def split_beta)
  from response_vendor_error [OF this, of 0] show ?thesis
    by (simp add: not_found_env_def Groq_init_def py_opt_def)
qed

text \<open>
  C2, the claim as stated, fails: what \<open>response\<close> raises for a vendor's 404 is the
  vendor client's status error, the same value for the model id "gpt-100" as for the
  model id "llama-x"; it does not expose the model id.
\<close>

theorem response_vendor_error_counterexample:
  "fst (the (response (Suc 0) not_found_env (Groq_init\<lparr>model_id := ''gpt-100''\<rparr>)
        [user_message ''hi''])) = Inl (APIStatusError 404 ''Not Found'')
   \<and> fst (the (response (Suc 0) not_found_env (Groq_init\<lparr>model_id := ''llama-x''\<rparr>)
        [user_message ''hi''])) = Inl (APIStatusError 404 ''Not Found'')"
  by (simp add: response_call_def invoke_def get_client_def get_client_params_def
      not_found_env_def Groq_init_def Let_def split_beta)





















section \<open>Properties of PDFUrlReader.read\<close>

lemma fetch_attempts_three:
  "fetch_attempts get [0, 1, 2] evs =
     (case get 0 of
        Fetched r \<Rightarrow> (evs, Inr (Some r))
      | FetchOtherError e \<Rightarrow> (evs, Inl (OtherError e))
      | FetchRequestError a \<Rightarrow>
          (case get 1 of
             Fetched r \<Rightarrow> (evs @ [LogRetryWarning 1, Sleep 1], Inr (Some r))
           | FetchOtherError e \<Rightarrow> (evs @ [LogRetryWarning 1, Sleep 1], Inl (OtherError e))
           | FetchRequestError b \<Rightarrow>
               (case get 2 of
                  Fetched r \<Rightarrow>
                    (evs @ [LogRetryWarning 1, Sleep 1, LogRetryWarning 2, Sleep 2], Inr (Some r))
                | FetchOtherError e \<Rightarrow>
                    (evs @ [LogRetryWarning 1, Sleep 1, LogRetryWarning 2, Sleep 2],
                     Inl (OtherError e))
                | FetchRequestError c \<Rightarrow>
                    (evs @ [LogRetryWarning 1, Sleep 1, LogRetryWarning 2, Sleep 2, LogFetchError c],
                     Inl (RequestError c)))))"
  by (simp split: fetch_result.splits)

lemma sleeps_append:
  "sleeps (xs @ ys) = sleeps xs @ sleeps ys"
  by (induction xs rule: sleeps.induct) simp_all

lemma read_sleeps:
  "sleeps (fst (read self env url)) = [] \<or> sleeps (fst (read self env url)) = [1]
   \<or> sleeps (fst (read self env url)) = [1, 2]"
  by (simp add: read_def fetch_attempts_three Let_def sleeps_append
      split: fetch_result.splits sum.splits option.splits prod.splits)

lemma read_request_error:
  assumes "url \<noteq> []"
  shows "snd (read self env url) = Inl (RequestError e) \<longleftrightarrow>
           (\<exists>a b. http_get env 0 = FetchRequestError a \<and> http_get env 1 = FetchRequestError b
                  \<and> http_get env 2 = FetchRequestError e)"
  using assms
  by (auto simp: read_def fetch_attempts_three Let_def
      split: fetch_result.splits sum.splits option.splits prod.splits)

text \<open>
  When the first two attempts fail and the third succeeds, the documents are returned
  and the two failures are only logged.
\<close>

lemma read_third_attempt:
  assumes "url \<noteq> []"
    and "http_get env 0 = FetchRequestError a" and "http_get env 1 = FetchRequestError b"
    and "http_get env 2 = Fetched resp" and "is_success resp"
    and "parse_pdf env (body resp) = Inr pages"
  shows "read self env url =
           ([LogInfo url, LogRetryWarning 1, Sleep 1, LogRetryWarning 2, Sleep 2],
            Inr (let documents =
                       map (\<lambda>(page_number, page). build_document (url_doc_name url) page_number page)
                         (zip [1..<Suc (length pages)] pages)
                 in if chunk self then build_chunked_documents self documents else documents))"
  using assms
  by (simp add: read_def fetch_attempts_three Let_def)

text \<open>
  C8. The claim, like the source's own comments ("Retry the request up to 3 times with
  exponential backoff", "Exponential backoff: 1, 2, 4 seconds"), has a transient network
  error retried up to three times, after waits of 1s, 2s and 4s, before it propagates.
  The code does not do that. When the network fails at every attempt, \<open>read\<close> makes
  three attempts in all, that is two retries, after waits of 1s and 2s, and raises at
  the third failure: no wait of 4s is made. And when the network fails three times and
  would answer the fourth request, the third retry that the claim promises is never
  made: the error of the third attempt propagates.
\<close>

theorem read_gives_up_at_third_failure:
  "read plain_reader down_env report_url =
     ([LogInfo report_url, LogRetryWarning 1, Sleep 1, LogRetryWarning 2, Sleep 2,
       LogFetchError ''timeout''],
      Inl (RequestError ''timeout''))
   \<and> sleeps (fst (read plain_reader down_env report_url)) = [1, 2]
   \<and> http_get fourth_time_env 3 = Fetched one_page_pdf
   \<and> read plain_reader fourth_time_env report_url =
       ([LogInfo report_url, LogRetryWarning 1, Sleep 1, LogRetryWarning 2, Sleep 2,
         LogFetchError ''timeout''],
        Inl (RequestError ''timeout''))"
  by (simp add: read_def fetch_attempts_three down_env_def fourth_time_env_def report_url_def)

section \<open>Properties of MongoDbWorkflowStorage.upsert\<close>

lemma matches_own_key:
  "d ''session_id'' = Some v \<Longrightarrow> matches v d"
  by (simp add: matches_def)

lemma find_one_update_one:
  assumes "update_data ''session_id'' = Some v"
  shows "find_one v (update_one v update_data coll) =
           Some ((case find_one v coll of None \<Rightarrow> [''session_id'' \<mapsto> v] | Some d \<Rightarrow> d) ++ update_data)"
  using assms
  by (induction coll) (simp_all add: find_one_def map_add_find_right matches_own_key)

lemma bson_document_upd:
  "bson_document d \<Longrightarrow> bson_value v \<Longrightarrow> bson_document (d(k \<mapsto> v))"
  by (simp add: bson_document_def)

text \<open>
  What a healthy \<open>upsert\<close> stores, given the key and the \<open>_version\<close> it has computed
  and that the encoder accepts.
\<close>

lemma upsert_stores:
  assumes "mongo_fault db = NoFault"
    and key: "session_id session = UUID sid \<or>
              (\<exists>s. session_id session = StrId s) \<and> to_dict session ''session_id'' = Some (VStr sid)"
    and enc: "bson_document (to_dict session)" "bson_int (utc_timestamp db)"
    and ver: "(case to_dict session ''_version'' of
                 None \<Rightarrow> Some (VInt 1)
               | Some v \<Rightarrow> py_incr (py_float_add db) v) = Some version"
    and ok: "bson_value version"
  shows "\<exists>d coll'. upsert db coll session = (Inr (from_dict db d), coll')
           \<and> find_one (VStr sid) coll' = Some d
           \<and> d ''_version'' = Some version
           \<and> d ''updated_at'' = Some (VInt (utc_timestamp db))
           \<and> (\<forall>k. k \<noteq> ''_version'' \<longrightarrow> k \<noteq> ''updated_at'' \<longrightarrow> k \<noteq> ''created_at''
                 \<longrightarrow> k \<noteq> ''session_id'' \<longrightarrow> to_dict session k \<noteq> None \<longrightarrow> d k = to_dict session k)"
proof -
  define ts where "ts = utc_timestamp db"
  define sd where "sd = (case session_id session of
                            UUID text \<Rightarrow> (to_dict session)(''session_id'' \<mapsto> VStr text)
                          | StrId _ \<Rightarrow> to_dict session)"
  from key have k: "sd ''session_id'' = Some (VStr sid)"
    by (auto simp: sd_def)
  have o: "sd x = to_dict session x" if "x \<noteq> ''session_id''" for x
    using that by (simp add: sd_def split: session_key.splits)
  have esd: "bson_document sd"
    using enc(1) by (auto simp: sd_def bson_document_upd split: session_key.splits)
  from ver o [of "''_version''"]
  have v: "(case sd ''_version'' of None \<Rightarrow> Some (VInt 1) | Some v \<Rightarrow> py_incr (py_float_add db) v)
             = Some version"
    by simp
  define u where "u = (case find_one (VStr sid) coll of
                   None \<Rightarrow> sd(''_version'' \<mapsto> version, ''updated_at'' \<mapsto> VInt ts,
                              ''created_at'' \<mapsto> VInt ts)
                 | Some doc \<Rightarrow> sd(''_version'' \<mapsto> version, ''updated_at'' \<mapsto> VInt ts))"
  define d where "d = (case find_one (VStr sid) coll of
                         None \<Rightarrow> [''session_id'' \<mapsto> VStr sid] | Some d \<Rightarrow> d) ++ u"
  have eu: "bson_document u"
    using esd ok enc(2) by (simp add: u_def ts_def bson_document_upd split: option.splits)
  have us: "u ''session_id'' = Some (VStr sid)" and uv: "u ''_version'' = Some version"
    and ut: "u ''updated_at'' = Some (VInt ts)"
    using k by (simp_all add: u_def split: option.splits)
  have f: "find_one (VStr sid) (update_one (VStr sid) u coll) = Some d"
    unfolding d_def using us by (rule find_one_update_one)
  have e: "upsert db coll session = (Inr (from_dict db d), update_one (VStr sid) u coll)"
    using assms(1) eu f
    by (cases "find_one (VStr sid) coll")
       (simp_all add: upsert_def Let_def sd_def [symmetric] ts_def [symmetric] v k u_def)
  have uo: "u x = to_dict session x"
    if "x \<noteq> ''_version''" "x \<noteq> ''updated_at''" "x \<noteq> ''created_at''" "x \<noteq> ''session_id''" for x
    using that o [of x] by (simp add: u_def split: option.splits)
  have "d ''_version'' = Some version" and "d ''updated_at'' = Some (VInt ts)"
    using uv ut by (simp_all add: d_def map_add_find_right)
  moreover have "d x = to_dict session x"
    if "x \<noteq> ''_version''" "x \<noteq> ''updated_at''" "x \<noteq> ''created_at''" "x \<noteq> ''session_id''"
      "to_dict session x \<noteq> None" for x
  proof -
    from uo [OF that(1-4)] that(5) obtain y where "u x = Some y" and "to_dict session x = Some y"
      by auto
    then show ?thesis
      by (simp add: d_def map_add_find_right)
  qed
  ultimately show ?thesis
    using e f by (intro exI [of _ d] exI [of _ "update_one (VStr sid) u coll"]) (simp add: ts_def)
qed

text \<open>What \<open>upsert\<close> does with a \<open>_version\<close> whose successor the encoder refuses.\<close>

lemma upsert_overflow:
  assumes "mongo_fault db = NoFault"
    and key: "session_id session = UUID sid \<or>
              (\<exists>s. session_id session = StrId s) \<and> to_dict session ''session_id'' = Some (VStr sid)"
    and ver: "to_dict session ''_version'' = Some (VInt v)" and big: "\<not> bson_int (v + 1)"
  shows "upsert db coll session = (Inl OverflowError, coll)"
proof -
  define sd where "sd = (case session_id session of
                            UUID text \<Rightarrow> (to_dict session)(''session_id'' \<mapsto> VStr text)
                          | StrId _ \<Rightarrow> to_dict session)"
  from key have k: "sd ''session_id'' = Some (VStr sid)"
    by (auto simp: sd_def)
  from ver have v: "sd ''_version'' = Some (VInt v)"
    by (simp add: sd_def split: session_key.splits)
  have "\<not> bson_document (m(''_version'' \<mapsto> VInt (v + 1), ''updated_at'' \<mapsto> x))"
    and "\<not> bson_document (m(''_version'' \<mapsto> VInt (v + 1), ''updated_at'' \<mapsto> x, ''created_at'' \<mapsto> y))"
    for m :: document and x y
    using big by (auto simp: bson_document_def)
  then show ?thesis
    using assms(1)
    by (cases "find_one (VStr sid) coll")
       (simp_all add: upsert_def Let_def sd_def [symmetric] v k)
qed

lemma upsert_many_stores:
  assumes "mongo_fault db = NoFault"
    and key: "session_id session = UUID sid \<or>
              (\<exists>s. session_id session = StrId s) \<and> to_dict session ''session_id'' = Some (VStr sid)"
    and enc: "bson_document (to_dict session)" "bson_int (utc_timestamp db)"
    and ver: "to_dict session ''_version'' = None"
  shows "\<exists>d. find_one (VStr sid) (upsert_many db coll session (Suc n)) = Some d
           \<and> d ''_version'' = Some (VInt 1)"
proof -
  have "(case to_dict session ''_version'' of
           None \<Rightarrow> Some (VInt 1) | Some v \<Rightarrow> py_incr (py_float_add db) v) = Some (VInt 1)"
    and "bson_value (VInt 1)"
    by (simp_all add: ver bson_int_def)
  from upsert_stores [OF assms(1) key enc this, of "upsert_many db coll session n"]
  obtain d coll'
    where "upsert db (upsert_many db coll session n) session = (Inr (from_dict db d), coll')"
      and "find_one (VStr sid) coll' = Some d" and "d ''_version'' = Some (VInt 1)"
    by (elim exE conjE)
  then show ?thesis by (intro exI [of _ d]) simp
qed

text \<open>
  C10. Take a session stored under a string key (its \<open>UUID\<close> as text, or the
  \<open>session_id\<close> of its dictionary) whose dictionary the driver can encode, and a
  database that meets no error. Whatever the collection holds, and so whatever version
  the stored document has, \<open>upsert\<close> writes a \<open>_version\<close> computed from the session
  alone. When the session's dictionary has no \<open>_version\<close>, the stored document ends
  with \<open>_version\<close> = 1, and so it does after every one of any number of repeated
  upserts. When the dictionary has the integer \<open>_version\<close> = v, the stored document
  ends with \<open>_version\<close> = v + 1, provided v + 1 still fits 8 bytes; when it does not,
  the driver's encoder raises \<open>OverflowError\<close>, which \<open>upsert\<close> lets out, and nothing
  is stored. When the dictionary has a float \<open>_version\<close>, the stored document ends
  with that float plus 1, as the machine adds floats. In every case but the overflow
  \<open>upsert\<close> returns what \<open>from_dict\<close> makes of the stored document, found again under
  the key; in the first two the theorem also states that this document has taken over
  every field of the session.
\<close>

theorem upsert_version_from_session:
  assumes "mongo_fault db = NoFault"
    and "session_id session = UUID sid \<or>
         (\<exists>s. session_id session = StrId s) \<and> to_dict session ''session_id'' = Some (VStr sid)"
    and "bson_document (to_dict session)" and "bson_int (utc_timestamp db)"
  shows "(to_dict session ''_version'' = None \<longrightarrow>
            (\<exists>d coll'. upsert db coll session = (Inr (from_dict db d), coll')
               \<and> find_one (VStr sid) coll' = Some d
               \<and> d ''_version'' = Some (VInt 1)
               \<and> d ''updated_at'' = Some (VInt (utc_timestamp db))
               \<and> (\<forall>k. k \<noteq> ''_version'' \<longrightarrow> k \<noteq> ''updated_at'' \<longrightarrow> k \<noteq> ''created_at''
                     \<longrightarrow> k \<noteq> ''session_id'' \<longrightarrow> to_dict session k \<noteq> None
                     \<longrightarrow> d k = to_dict session k))
            \<and> (\<exists>d. find_one (VStr sid) (upsert_many db coll session (Suc n)) = Some d
                 \<and> d ''_version'' = Some (VInt 1)))
       \<and> (\<forall>v. to_dict session ''_version'' = Some (VInt v) \<longrightarrow> v + 1 < 2 ^ 63 \<longrightarrow>
            (\<exists>d coll'. upsert db coll session = (Inr (from_dict db d), coll')
               \<and> find_one (VStr sid) coll' = Some d
               \<and> d ''_version'' = Some (VInt (v + 1))
               \<and> d ''updated_at'' = Some (VInt (utc_timestamp db))
               \<and> (\<forall>k. k \<noteq> ''_version'' \<longrightarrow> k \<noteq> ''updated_at'' \<longrightarrow> k \<noteq> ''created_at''
                     \<longrightarrow> k \<noteq> ''session_id'' \<longrightarrow> to_dict session k \<noteq> None
                     \<longrightarrow> d k = to_dict session k)))
       \<and> (\<forall>v. to_dict session ''_version'' = Some (VInt v) \<longrightarrow> 2 ^ 63 \<le> v + 1 \<longrightarrow>
            upsert db coll session = (Inl OverflowError, coll))
       \<and> (\<forall>x. to_dict session ''_version'' = Some (VFloat x) \<longrightarrow>
            (\<exists>d coll'. upsert db coll session = (Inr (from_dict db d), coll')
               \<and> find_one (VStr sid) coll' = Some d
               \<and> d ''_version'' = Some (VFloat (py_float_add db x 1))))"
proof (intro conjI impI allI)
  assume n: "to_dict session ''_version'' = None"
  have "(case to_dict session ''_version'' of
           None \<Rightarrow> Some (VInt 1) | Some v \<Rightarrow> py_incr (py_float_add db) v) = Some (VInt 1)"
    and "bson_value (VInt 1)"
    by (simp_all add: n bson_int_def)
  from upsert_stores [OF assms this]
  show "\<exists>d coll'. upsert db coll session = (Inr (from_dict db d), coll')
               \<and> find_one (VStr sid) coll' = Some d
               \<and> d ''_version'' = Some (VInt 1)
               \<and> d ''updated_at'' = Some (VInt (utc_timestamp db))
               \<and> (\<forall>k. k \<noteq> ''_version'' \<longrightarrow> k \<noteq> ''updated_at'' \<longrightarrow> k \<noteq> ''created_at''
                     \<longrightarrow> k \<noteq> ''session_id'' \<longrightarrow> to_dict session k \<noteq> None
                     \<longrightarrow> d k = to_dict session k)" .
  from upsert_many_stores [OF assms n]
  show "\<exists>d. find_one (VStr sid) (upsert_many db coll session (Suc n)) = Some d
                 \<and> d ''_version'' = Some (VInt 1)" .
next
  fix v
  assume s: "to_dict session ''_version'' = Some (VInt v)" and b: "v + 1 < 2 ^ 63"
  from assms(3) s have "bson_value (VInt v)"
    unfolding bson_document_def by blast
  then have "bson_int v"
    by simp
  with b have "bson_value (VInt (v + 1))"
    by (simp add: bson_int_def)
  moreover have "(case to_dict session ''_version'' of
           None \<Rightarrow> Some (VInt 1) | Some v \<Rightarrow> py_incr (py_float_add db) v) = Some (VInt (v + 1))"
    by (simp add: s)
  ultimately show "\<exists>d coll'. upsert db coll session = (Inr (from_dict db d), coll')
               \<and> find_one (VStr sid) coll' = Some d
               \<and> d ''_version'' = Some (VInt (v + 1))
               \<and> d ''updated_at'' = Some (VInt (utc_timestamp db))
               \<and> (\<forall>k. k \<noteq> ''_version'' \<longrightarrow> k \<noteq> ''updated_at'' \<longrightarrow> k \<noteq> ''created_at''
                     \<longrightarrow> k \<noteq> ''session_id'' \<longrightarrow> to_dict session k \<noteq> None
                     \<longrightarrow> d k = to_dict session k)"
    using upsert_stores [OF assms, of "VInt (v + 1)" coll] by simp
next
  fix v
  assume s: "to_dict session ''_version'' = Some (VInt v)" and b: "(2::int) ^ 63 \<le> v + 1"
  then have "\<not> bson_int (v + 1)"
    by (simp add: bson_int_def)
  from upsert_overflow [OF assms(1,2) s this]
  show "upsert db coll session = (Inl OverflowError, coll)" .
next
  fix x
  assume s: "to_dict session ''_version'' = Some (VFloat x)"
  have "(case to_dict session ''_version'' of
           None \<Rightarrow> Some (VInt 1) | Some v \<Rightarrow> py_incr (py_float_add db) v)
          = Some (VFloat (py_float_add db x 1))"
    and "bson_value (VFloat (py_float_add db x 1))"
    by (simp_all add: s)
  from upsert_stores [OF assms this, of coll] obtain d coll'
    where "upsert db coll session = (Inr (from_dict db d), coll')"
      and "find_one (VStr sid) coll' = Some d"
      and "d ''_version'' = Some (VFloat (py_float_add db x 1))"
    by (elim exE conjE)
  then show "\<exists>d coll'. upsert db coll session = (Inr (from_dict db d), coll')
               \<and> find_one (VStr sid) coll' = Some d
               \<and> d ''_version'' = Some (VFloat (py_float_add db x 1))"
    by (intro exI conjI)
qed

text \<open>
  Stored over a document that stands at version 7: a session without \<open>_version\<close>
  leaves it at version 1, also after three upserts; the same session at version 3
  leaves it at version 4; the same session at version 2^63 - 1 raises and leaves the
  collection as it was.
\<close>

theorem upsert_version_from_session_witness:
  "stored_v7 ''_version'' = Some (VInt 7)
   \<and> (\<exists>d coll'. upsert healthy_db [stored_v7] draft_session = (Inr (from_dict healthy_db d), coll')
         \<and> find_one (VStr ''s1'') coll' = Some d
         \<and> d ''_version'' = Some (VInt 1)
         \<and> d ''session_data'' = Some (VStr ''draft''))
   \<and> (\<exists>d. find_one (VStr ''s1'') (upsert_many healthy_db [stored_v7] draft_session (Suc (Suc (Suc 0))))
             = Some d
         \<and> d ''_version'' = Some (VInt 1))
   \<and> (\<exists>d coll'. upsert healthy_db [stored_v7] (versioned_session 3)
                   = (Inr (from_dict healthy_db d), coll')
         \<and> find_one (VStr ''s1'') coll' = Some d
         \<and> d ''_version'' = Some (VInt 4))
   \<and> upsert healthy_db [stored_v7] (versioned_session (2 ^ 63 - 1)) = (Inl OverflowError, [stored_v7])"
proof -
  have h: "mongo_fault healthy_db = NoFault" "bson_int (utc_timestamp healthy_db)"
    by (simp_all add: healthy_db_def bson_int_def)
  have k: "session_id draft_session = UUID ''s1'' \<or>
           (\<exists>s. session_id draft_session = StrId s)
           \<and> to_dict draft_session ''session_id'' = Some (VStr ''s1'')"
    and e: "bson_document (to_dict draft_session)"
    and n: "to_dict draft_session ''_version'' = None"
    and s: "to_dict draft_session ''session_data'' = Some (VStr ''draft'')"
    by (auto simp: draft_session_def bson_document_def split: if_splits)
  have kv: "session_id (versioned_session v) = UUID ''s1'' \<or>
           (\<exists>s. session_id (versioned_session v) = StrId s)
           \<and> to_dict (versioned_session v) ''session_id'' = Some (VStr ''s1'')"
    and vv: "to_dict (versioned_session v) ''_version'' = Some (VInt v)" for v
    by (simp_all add: versioned_session_def)
  have ev: "bson_document (to_dict (versioned_session v))" if "bson_int v" for v
    using that by (auto simp: versioned_session_def bson_document_def split: if_splits)
  have e3: "bson_document (to_dict (versioned_session 3))"
    and em: "bson_document (to_dict (versioned_session (2 ^ 63 - 1)))"
    by (rule ev, simp add: bson_int_def)+
  note t = upsert_version_from_session [OF h(1) k e h(2), of "[stored_v7]" "Suc (Suc 0)"]
  from t [THEN conjunct1, rule_format, OF n, THEN conjunct1] obtain d coll'
    where u: "upsert healthy_db [stored_v7] draft_session = (Inr (from_dict healthy_db d), coll')"
      and f: "find_one (VStr ''s1'') coll' = Some d"
      and dv: "d ''_version'' = Some (VInt 1)"
      and dk: "\<forall>k. k \<noteq> ''_version'' \<longrightarrow> k \<noteq> ''updated_at'' \<longrightarrow> k \<noteq> ''created_at''
                  \<longrightarrow> k \<noteq> ''session_id'' \<longrightarrow> to_dict draft_session k \<noteq> None
                  \<longrightarrow> d k = to_dict draft_session k"
    by (elim conjE exE)
  from dk [rule_format, of "''session_data''"] s
  have ds: "d ''session_data'' = Some (VStr ''draft'')"
    by simp
  from u f dv ds
  have a: "\<exists>d coll'. upsert healthy_db [stored_v7] draft_session = (Inr (from_dict healthy_db d), coll')
         \<and> find_one (VStr ''s1'') coll' = Some d
         \<and> d ''_version'' = Some (VInt 1)
         \<and> d ''session_data'' = Some (VStr ''draft'')"
    by (intro exI conjI)
  from t [THEN conjunct1, rule_format, OF n, THEN conjunct2]
  have m: "\<exists>d. find_one (VStr ''s1'')
        (upsert_many healthy_db [stored_v7] draft_session (Suc (Suc (Suc 0)))) = Some d
      \<and> d ''_version'' = Some (VInt 1)" .
  note t3 = upsert_version_from_session [OF h(1) kv e3 h(2), of "[stored_v7]" 0]
  have "(3::int) + 1 < 2 ^ 63" by simp
  from t3 [THEN conjunct2, THEN conjunct1, rule_format, OF vv this] obtain d3 coll3
    where u3: "upsert healthy_db [stored_v7] (versioned_session 3)
                 = (Inr (from_dict healthy_db d3), coll3)"
      and f3: "find_one (VStr ''s1'') coll3 = Some d3"
      and dv3: "d3 ''_version'' = Some (VInt (3 + 1))"
    by (elim conjE exE)
  from u3 f3 dv3
  have b: "\<exists>d coll'. upsert healthy_db [stored_v7] (versioned_session 3)
                   = (Inr (from_dict healthy_db d), coll')
         \<and> find_one (VStr ''s1'') coll' = Some d
         \<and> d ''_version'' = Some (VInt 4)"
    by (intro exI [of _ d3] exI [of _ coll3]) simp
  note tm = upsert_version_from_session [OF h(1) kv em h(2), of "[stored_v7]" 0]
  from tm [THEN conjunct2, THEN conjunct2, THEN conjunct1, rule_format, OF vv]
  have c: "upsert healthy_db [stored_v7] (versioned_session (2 ^ 63 - 1))
             = (Inl OverflowError, [stored_v7])"
    by simp
  have o: "stored_v7 ''_version'' = Some (VInt 7)"
    by (simp add: stored_v7_def)
  from o a m b c show ?thesis
    by (intro conjI)
qed

end
